theory Spec2Isabelle
  imports Complex_Main
begin

section \<open>Scalars, errors and tensors\<close>

text \<open>
  The scalars of \<^verbatim>\<open>kornia/geometry/epipolar/fundamental.py\<close> are IEEE floating-point
  numbers. The model keeps the special values, because the code produces them
  (\<^verbatim>\<open>0.5 / a\<close> at \<^verbatim>\<open>a = 0\<close>, \<^verbatim>\<open>torch.pow\<close> of a negative base, \<^verbatim>\<open>torch.sqrt\<close> of a
  negative number), and computes exactly on finite values: rounding, overflow and the
  sign of zero are left out.
\<close>

datatype fl = Fin real | PInf | MInf | NaN

instantiation fl :: "{zero, one, plus, uminus, minus, times, inverse, abs, ord}"
begin

definition zero_fl :: fl where
  "zero_fl = Fin 0"

definition one_fl :: fl where
  "one_fl = Fin 1"

fun plus_fl :: "fl \<Rightarrow> fl \<Rightarrow> fl" where
  "plus_fl (Fin a) (Fin b) = Fin (a + b)"
| "plus_fl NaN _ = NaN"
| "plus_fl _ NaN = NaN"
| "plus_fl PInf MInf = NaN"
| "plus_fl MInf PInf = NaN"
| "plus_fl PInf _ = PInf"
| "plus_fl _ PInf = PInf"
| "plus_fl MInf _ = MInf"
| "plus_fl _ MInf = MInf"

fun uminus_fl :: "fl \<Rightarrow> fl" where
  "uminus_fl (Fin a) = Fin (- a)"
| "uminus_fl PInf = MInf"
| "uminus_fl MInf = PInf"
| "uminus_fl NaN = NaN"

definition minus_fl :: "fl \<Rightarrow> fl \<Rightarrow> fl" where
  "minus_fl x y = x + (- y)"

fun times_fl :: "fl \<Rightarrow> fl \<Rightarrow> fl" where
  "times_fl (Fin a) (Fin b) = Fin (a * b)"
| "times_fl NaN _ = NaN"
| "times_fl _ NaN = NaN"
| "times_fl (Fin a) PInf = (if a = 0 then NaN else if 0 < a then PInf else MInf)"
| "times_fl (Fin a) MInf = (if a = 0 then NaN else if 0 < a then MInf else PInf)"
| "times_fl PInf (Fin b) = (if b = 0 then NaN else if 0 < b then PInf else MInf)"
| "times_fl MInf (Fin b) = (if b = 0 then NaN else if 0 < b then MInf else PInf)"
| "times_fl PInf PInf = PInf"
| "times_fl PInf MInf = MInf"
| "times_fl MInf PInf = MInf"
| "times_fl MInf MInf = PInf"

fun divide_fl :: "fl \<Rightarrow> fl \<Rightarrow> fl" where
  "divide_fl (Fin a) (Fin b) =
     (if b = 0 then (if a = 0 then NaN else if 0 < a then PInf else MInf) else Fin (a / b))"
| "divide_fl NaN _ = NaN"
| "divide_fl _ NaN = NaN"
| "divide_fl (Fin a) _ = Fin 0"
| "divide_fl PInf (Fin b) = (if 0 \<le> b then PInf else MInf)"
| "divide_fl MInf (Fin b) = (if 0 \<le> b then MInf else PInf)"
| "divide_fl _ _ = NaN"

definition inverse_fl :: "fl \<Rightarrow> fl" where
  "inverse_fl x = divide (Fin 1) x"

fun abs_fl :: "fl \<Rightarrow> fl" where
  "abs_fl (Fin a) = Fin \<bar>a\<bar>"
| "abs_fl PInf = PInf"
| "abs_fl MInf = PInf"
| "abs_fl NaN = NaN"

fun less_fl :: "fl \<Rightarrow> fl \<Rightarrow> bool" where
  "less_fl (Fin a) (Fin b) = (a < b)"
| "less_fl NaN _ = False"
| "less_fl _ NaN = False"
| "less_fl MInf MInf = False"
| "less_fl MInf _ = True"
| "less_fl PInf _ = False"
| "less_fl _ PInf = True"
| "less_fl _ MInf = False"

fun less_eq_fl :: "fl \<Rightarrow> fl \<Rightarrow> bool" where
  "less_eq_fl (Fin a) (Fin b) = (a \<le> b)"
| "less_eq_fl NaN _ = False"
| "less_eq_fl _ NaN = False"
| "less_eq_fl MInf _ = True"
| "less_eq_fl _ PInf = True"
| "less_eq_fl PInf _ = False"
| "less_eq_fl _ MInf = False"

instance ..

end

text \<open>\<^verbatim>\<open>==\<close> on floats: a NaN is equal to nothing, itself included; \<^verbatim>\<open>!=\<close> is its negation.\<close>

fun feq :: "fl \<Rightarrow> fl \<Rightarrow> bool" where
  "feq (Fin a) (Fin b) = (a = b)"
| "feq PInf PInf = True"
| "feq MInf MInf = True"
| "feq _ _ = False"

fun fsqrt :: "fl \<Rightarrow> fl" where
  "fsqrt (Fin a) = (if a < 0 then NaN else Fin (sqrt a))"
| "fsqrt PInf = PInf"
| "fsqrt MInf = NaN"
| "fsqrt NaN = NaN"

text \<open>\<^verbatim>\<open>torch.pow(x, 1/3)\<close>: a negative base with a fractional exponent gives NaN.\<close>

fun pow_third :: "fl \<Rightarrow> fl" where
  "pow_third (Fin a) = (if a < 0 then NaN else Fin (root 3 a))"
| "pow_third PInf = PInf"
| "pow_third MInf = PInf"
| "pow_third NaN = NaN"

fun facos :: "fl \<Rightarrow> fl" where
  "facos (Fin a) = (if a < - 1 \<or> 1 < a then NaN else Fin (arccos a))"
| "facos _ = NaN"

fun fcos :: "fl \<Rightarrow> fl" where
  "fcos (Fin a) = Fin (cos a)"
| "fcos _ = NaN"

fun is_Fin :: "fl \<Rightarrow> bool" where
  "is_Fin (Fin a) = True"
| "is_Fin _ = False"

datatype error = AssertionError | TypeError | ValueError | IndexError | RuntimeError

text \<open>
  A tensor of rank 0 to 3, as nested lists. Tensors of the program are rectangular; a
  tensor with an empty dimension carries no inner shape here.
\<close>

datatype tensor = T0 fl | T1 "fl list" | T2 "fl list list" | T3 "fl list list list"

definition bnd :: "error + 'a \<Rightarrow> ('a \<Rightarrow> error + 'b) \<Rightarrow> error + 'b" where
  "bnd m f = (case m of Inl e \<Rightarrow> Inl e | Inr v \<Rightarrow> f v)"

definition eps_default :: fl where
  "eps_default = Fin (1 / 10 ^ 8)"

subsection \<open>Elementwise operations and boolean masks\<close>

definition vadd :: "fl list \<Rightarrow> fl list \<Rightarrow> fl list" where
  "vadd xs ys = map2 (+) xs ys"

definition vsub :: "fl list \<Rightarrow> fl list \<Rightarrow> fl list" where
  "vsub xs ys = map2 (-) xs ys"

definition vmul :: "fl list \<Rightarrow> fl list \<Rightarrow> fl list" where
  "vmul xs ys = map2 (*) xs ys"

definition vdiv :: "fl list \<Rightarrow> fl list \<Rightarrow> fl list" where
  "vdiv xs ys = map2 (/) xs ys"

definition vneg :: "fl list \<Rightarrow> fl list" where
  "vneg xs = map uminus xs"

text \<open>A scalar broadcast over a vector: \<^verbatim>\<open>k * xs\<close>, \<^verbatim>\<open>xs / k\<close>, \<^verbatim>\<open>k / xs\<close>.\<close>

definition smul :: "fl \<Rightarrow> fl list \<Rightarrow> fl list" where
  "smul k xs = map (\<lambda>x. k * x) xs"

definition vdivs :: "fl list \<Rightarrow> fl \<Rightarrow> fl list" where
  "vdivs xs k = map (\<lambda>x. x / k) xs"

definition sdiv :: "fl \<Rightarrow> fl list \<Rightarrow> fl list" where
  "sdiv k xs = map (\<lambda>x. k / x) xs"

definition mand :: "bool list \<Rightarrow> bool list \<Rightarrow> bool list" where
  "mand ms ns = map2 (\<and>) ms ns"

definition mnot :: "bool list \<Rightarrow> bool list" where
  "mnot ms = map Not ms"

definition any :: "bool list \<Rightarrow> bool" where
  "any ms = (True \<in> set ms)"

text \<open>\<^verbatim>\<open>xs[mask]\<close>: the elements of \<open>xs\<close> at the true positions of the mask.\<close>

definition select :: "bool list \<Rightarrow> 'a list \<Rightarrow> 'a list" where
  "select ms xs = map snd (filter fst (zip ms xs))"

text \<open>
  A masked assignment writes the values, in order, to the true positions of the mask;
  \<open>w\<close> says how one value is written into one element. The values of the program are
  always computed from a selection by a mask with the same number of true positions, so
  torch's shape-mismatch error does not arise.
\<close>

fun scatter_with :: "('v \<Rightarrow> 'a \<Rightarrow> 'a) \<Rightarrow> bool list \<Rightarrow> 'a list \<Rightarrow> 'v list \<Rightarrow> 'a list" where
  "scatter_with w (m # ms) (x # xs) vs =
     (if m then (case vs of [] \<Rightarrow> x # xs | v # vs' \<Rightarrow> w v x # scatter_with w ms xs vs')
      else x # scatter_with w ms xs vs)"
| "scatter_with w _ xs _ = xs"

text \<open>\<^verbatim>\<open>xs[mask] = vs\<close>\<close>

definition scatter :: "bool list \<Rightarrow> 'a list \<Rightarrow> 'a list \<Rightarrow> 'a list" where
  "scatter ms xs vs = scatter_with (\<lambda>v x. v) ms xs vs"

text \<open>\<^verbatim>\<open>sol[mask, j] = vs\<close>\<close>

definition scatter_col :: "bool list \<Rightarrow> nat \<Rightarrow> fl list list \<Rightarrow> fl list \<Rightarrow> fl list list" where
  "scatter_col ms j rs vs = scatter_with (\<lambda>v r. r[j := v]) ms rs vs"

text \<open>\<^verbatim>\<open>sol[mask, 0:2] = vs\<close>, each value a row of two entries\<close>

definition scatter_slice2 :: "bool list \<Rightarrow> fl list list \<Rightarrow> fl list list \<Rightarrow> fl list list" where
  "scatter_slice2 ms rs vs = scatter_with (\<lambda>v r. v @ drop 2 r) ms rs vs"

text \<open>\<^verbatim>\<open>sol[mask, j] = k\<close> and \<^verbatim>\<open>sol[mask, :] = k\<close> for a scalar \<open>k\<close>\<close>

definition fill_col :: "bool list \<Rightarrow> nat \<Rightarrow> fl list list \<Rightarrow> fl \<Rightarrow> fl list list" where
  "fill_col ms j rs k = map2 (\<lambda>m r. if m then r[j := k] else r) ms rs"

definition fill_rows :: "bool list \<Rightarrow> fl list list \<Rightarrow> fl \<Rightarrow> fl list list" where
  "fill_rows ms rs k = map2 (\<lambda>m r. if m then map (\<lambda>_. k) r else r) ms rs"

text \<open>\<^verbatim>\<open>coeffs[:, j]\<close>: column \<open>j\<close>; an index beyond the row length raises IndexError.\<close>

definition column :: "fl list list \<Rightarrow> nat \<Rightarrow> error + fl list" where
  "column rows j =
     (if list_all (\<lambda>r. j < length r) rows then Inr (map (\<lambda>r. r ! j) rows) else Inl IndexError)"

section \<open>normalize_transformation\<close>

text \<open>
  \<^verbatim>\<open>norm_val = M[..., -1:, -1:]\<close> is the bottom-right entry of each matrix, broadcast by
  \<^verbatim>\<open>torch.where\<close> over the matrix. An empty matrix has no entry to rewrite.
\<close>

definition normalize_mat :: "fl \<Rightarrow> fl list list \<Rightarrow> fl list list" where
  "normalize_mat eps M =
     (if M = [] \<or> last M = [] then M
      else (let norm_val = last (last M)
            in map (map (\<lambda>m. if eps < abs norm_val then m / (norm_val + eps) else m)) M))"

definition normalize_transformation :: "tensor \<Rightarrow> fl \<Rightarrow> error + tensor" where
  "normalize_transformation M eps =
     (case M of
        T0 _ \<Rightarrow> Inl AssertionError
      | T1 _ \<Rightarrow> Inl AssertionError
      | T2 m \<Rightarrow> Inr (T2 (normalize_mat eps m))
      | T3 ms \<Rightarrow> Inr (T3 (map (normalize_mat eps) ms)))"

section \<open>solve_quadratic\<close>

text \<open>
  \<^verbatim>\<open>inv_2a = 0.5 / a\<close> is computed for every batch element, before any mask is looked at.
\<close>

definition inv_2a_of :: "fl list \<Rightarrow> fl list" where
  "inv_2a_of a = sdiv (Fin (1/2)) a"

definition solve_quadratic :: "fl list list \<Rightarrow> error + fl list list" where
  "solve_quadratic coeffs =
     bnd (column coeffs 0) (\<lambda>a.
     bnd (column coeffs 1) (\<lambda>b.
     bnd (column coeffs 2) (\<lambda>c.
       let delta = vsub (vmul b b) (vmul (smul (Fin 4) a) c);
           mask_negative = map (\<lambda>d. d < 0) delta;
           mask_zero = map (\<lambda>d. feq d 0) delta;
           inv_2a = inv_2a_of a;
           solution = replicate (length coeffs) [0, 0];
           solution = (if any mask_negative then fill_rows mask_negative solution 0
                       else solution);
           sqrt_delta = map fsqrt delta;
           mask = mand (mnot mask_negative) (mnot mask_zero);
           solution = (if any mask
                       then (let solution = scatter_col mask 0 solution
                                   (vmul (vadd (vneg (select mask b)) (select mask sqrt_delta))
                                         (select mask inv_2a))
                             in scatter_col mask 1 solution
                                   (vmul (vsub (vneg (select mask b)) (select mask sqrt_delta))
                                         (select mask inv_2a)))
                       else solution)
       in Inr solution)))"

section \<open>solve_cubic\<close>

text \<open>
  The three low-order branches, for the batch elements with \<^verbatim>\<open>a == 0\<close>. The quadratic
  solver receives \<^verbatim>\<open>coeffs[mask_second_order, 1:]\<close>, and its rows go to the first two
  root slots.
\<close>

definition cubic_low_order ::
  "fl list list \<Rightarrow> fl list \<Rightarrow> fl list \<Rightarrow> fl list \<Rightarrow> fl list list \<Rightarrow> error + fl list list" where
  "cubic_low_order coeffs a b c solutions =
     (let mask_a_zero = map (\<lambda>x. feq x 0) a;
          mask_b_zero = map (\<lambda>x. feq x 0) b;
          mask_c_zero = map (\<lambda>x. feq x 0) c;
          mask_zero_order = mand (mand mask_a_zero mask_b_zero) mask_c_zero;
          mask_first_order = mand (mand mask_a_zero mask_b_zero) (mnot mask_c_zero);
          mask_second_order = mand (mand mask_a_zero (mnot mask_b_zero)) (mnot mask_c_zero)
      in bnd (if any mask_second_order
              then bnd (solve_quadratic (map (drop 1) (select mask_second_order coeffs)))
                     (\<lambda>q. Inr (scatter_slice2 mask_second_order solutions q))
              else Inr solutions) (\<lambda>solutions.
         let solutions = (if any mask_first_order then fill_col mask_first_order 0 solutions 1
                          else solutions);
             solutions = (if any mask_zero_order then fill_col mask_zero_order 0 solutions 0
                          else solutions)
         in Inr solutions))"

text \<open>
  The normalized form over the elements with \<^verbatim>\<open>a != 0\<close>: the vectors \<open>Q\<close>, \<open>R\<close>, \<open>Q3\<close>,
  \<open>D\<close> and \<open>b_a_3\<close>, in this order.
\<close>

definition cubic_normal_form ::
  "fl list \<Rightarrow> fl list \<Rightarrow> fl list \<Rightarrow> fl list \<Rightarrow> fl list \<times> fl list \<times> fl list \<times> fl list \<times> fl list" where
  "cubic_normal_form a b c d =
     (let nz = mnot (map (\<lambda>x. feq x 0) a);
          inv_a = sdiv (Fin 1) (select nz a);
          b_a = vmul inv_a (select nz b);
          b_a2 = vmul b_a b_a;
          c_a = vmul inv_a (select nz c);
          d_a = vmul inv_a (select nz d);
          Q = vdivs (vsub (smul (Fin 3) c_a) b_a2) (Fin 9);
          R = vdivs (vsub (vsub (vmul (smul (Fin 9) b_a) c_a) (smul (Fin 27) d_a))
                          (vmul (smul (Fin 2) b_a) b_a2)) (Fin 54);
          Q3 = vmul (vmul Q Q) Q;
          D = vadd Q3 (vmul R R);
          b_a_3 = smul (Fin (1 / 3)) b_a
      in (Q, R, Q3, D, b_a_3))"

text \<open>The branch \<^verbatim>\<open>D > 0\<close>: the vectors \<open>AD\<close> and \<open>BD\<close> over the elements with \<^verbatim>\<open>a != 0\<close>.\<close>

definition cubic_AD_BD :: "fl list \<Rightarrow> fl list \<Rightarrow> fl list \<Rightarrow> fl list \<times> fl list" where
  "cubic_AD_BD Q R D =
     (let AD = map (\<lambda>_. 0) R;
          BD = map (\<lambda>_. 0) R;
          R_abs = map abs R;
          mask_R_positive = map (\<lambda>x. Fin (1 / 10 ^ 16) < x) R_abs
      in if any mask_R_positive
         then (let AD = scatter mask_R_positive AD
                          (map pow_third (vadd (select mask_R_positive R_abs)
                                               (map fsqrt (select mask_R_positive D))));
                   mask_R_negative = map (\<lambda>x. x < 0) R;
                   AD = (if any mask_R_negative
                         then scatter mask_R_negative AD (vneg (select mask_R_negative AD))
                         else AD);
                   BD = scatter mask_R_positive BD
                          (vdiv (vneg (select mask_R_positive Q)) (select mask_R_positive AD))
               in (AD, BD))
         else (AD, BD))"

definition solve_cubic :: "fl list list \<Rightarrow> error + fl list list" where
  "solve_cubic coeffs =
     bnd (column coeffs 0) (\<lambda>a.
     bnd (column coeffs 1) (\<lambda>b.
     bnd (column coeffs 2) (\<lambda>c.
     bnd (column coeffs 3) (\<lambda>d.
     bnd (cubic_low_order coeffs a b c (replicate (length coeffs) [0, 0, 0])) (\<lambda>solutions.
       let nz = mnot (map (\<lambda>x. feq x 0) a);
           (Q, R, Q3, D, b_a_3) = cubic_normal_form a b c d;
           a_Q_zero = scatter nz (map (\<lambda>_. 1) a) Q;
           a_R_zero = scatter nz (map (\<lambda>_. 1) a) R;
           a_D_zero = scatter nz (map (\<lambda>_. 1) a) D;
           mask_Q_zero = mand (map (\<lambda>x. feq x 0) Q) (map (\<lambda>x. \<not> feq x 0) R);
           mask_Q_zero_solutions =
             mand (map (\<lambda>x. feq x 0) a_Q_zero) (map (\<lambda>x. \<not> feq x 0) a_R_zero);
           solutions = (if any mask_Q_zero
                        then scatter_col mask_Q_zero_solutions 0 solutions
                               (vsub (map pow_third (smul (Fin 2) (select mask_Q_zero R)))
                                     (select mask_Q_zero b_a_3))
                        else solutions);
           mask_QR_zero = mand (map (\<lambda>x. feq x 0) Q) (map (\<lambda>x. feq x 0) R);
           mask_QR_zero_solutions =
             mand (map (\<lambda>x. feq x 0) a_Q_zero) (map (\<lambda>x. feq x 0) a_R_zero);
           solutions = (if any mask_QR_zero
                        then scatter mask_QR_zero_solutions solutions
                               (map (\<lambda>x. [x, x, x]) (vneg (select mask_QR_zero b_a_3)))
                        else solutions);
           mask_D_zero = mand (map (\<lambda>x. x \<le> 0) D) (map (\<lambda>x. \<not> feq x 0) Q);
           mask_D_zero_solutions =
             mand (map (\<lambda>x. x \<le> 0) a_D_zero) (map (\<lambda>x. \<not> feq x 0) a_Q_zero);
           solutions = (if any mask_D_zero
                        then (let theta_D_zero =
                                    map facos (vdiv (select mask_D_zero R)
                                                    (map fsqrt (vneg (select mask_D_zero Q3))));
                                  sqrt_Q_D_zero = map fsqrt (vneg (select mask_D_zero Q));
                                  b3 = select mask_D_zero b_a_3;
                                  x0_D_zero =
                                    vsub (vmul (smul (Fin 2) sqrt_Q_D_zero)
                                               (map fcos (vdivs theta_D_zero (Fin 3)))) b3;
                                  x1_D_zero =
                                    vsub (vmul (smul (Fin 2) sqrt_Q_D_zero)
                                               (map fcos (vdivs (map (\<lambda>t. t + Fin 2 * Fin pi)
                                                                     theta_D_zero) (Fin 3)))) b3;
                                  x2_D_zero =
                                    vsub (vmul (smul (Fin 2) sqrt_Q_D_zero)
                                               (map fcos (vdivs (map (\<lambda>t. t + Fin 4 * Fin pi)
                                                                     theta_D_zero) (Fin 3)))) b3
                              in scatter mask_D_zero_solutions solutions
                                   (map (\<lambda>(x0, x1, x2). [x0, x1, x2])
                                        (zip x0_D_zero (zip x1_D_zero x2_D_zero))))
                        else solutions);
           a_D_positive = scatter nz (map (\<lambda>_. 0) a) D;
           mask_D_positive_solution =
             mand (map (\<lambda>x. 0 < x) a_D_positive) (map (\<lambda>x. \<not> feq x 0) a_Q_zero);
           mask_D_positive = mand (map (\<lambda>x. 0 < x) D) (map (\<lambda>x. \<not> feq x 0) Q);
           solutions = (if any mask_D_positive
                        then (let (AD, BD) = cubic_AD_BD Q R D
                              in scatter_col mask_D_positive_solution 0 solutions
                                   (vsub (vadd (select mask_D_positive AD)
                                               (select mask_D_positive BD))
                                         (select mask_D_positive b_a_3)))
                        else solutions)
       in Inr solutions)))))"

text \<open>What \<open>solve_quadratic\<close> computes for one batch element \<open>[a, b, c]\<close>.\<close>

definition quad_row :: "fl list \<Rightarrow> fl list" where
  "quad_row r =
     (let a = r ! 0; b = r ! 1; c = r ! 2; delta = b * b - Fin 4 * a * c
      in if delta < 0 \<or> feq delta 0 then [0, 0]
         else [(- b + fsqrt delta) * (Fin (1/2) / a), (- b - fsqrt delta) * (Fin (1/2) / a)])"


section \<open>normalize_points\<close>

definition fsum :: "fl list \<Rightarrow> fl" where
  "fsum xs = foldr (+) xs 0"

text \<open>\<^verbatim>\<open>mean\<close>; the mean of no element is \<open>0 / 0\<close>, a NaN.\<close>

definition fmean :: "fl list \<Rightarrow> fl" where
  "fmean xs = fsum xs / Fin (real (length xs))"

text \<open>\<^verbatim>\<open>norm(dim=-1, p=2)\<close>\<close>

definition norm2 :: "fl list \<Rightarrow> fl" where
  "norm2 v = fsqrt (fsum (map (\<lambda>x. x * x) v))"

fun shape :: "tensor \<Rightarrow> nat list" where
  "shape (T0 _) = []"
| "shape (T1 xs) = [length xs]"
| "shape (T2 xs) = [length xs, (case xs of [] \<Rightarrow> 0 | r # _ \<Rightarrow> length r)]"
| "shape (T3 xs) =
     [length xs, (case xs of [] \<Rightarrow> 0 | m # _ \<Rightarrow> length m),
      (case xs of [] \<Rightarrow> 0 | m # _ \<Rightarrow> (case m of [] \<Rightarrow> 0 | r # _ \<Rightarrow> length r))]"

text \<open>
  Modelled from the spec: \<^verbatim>\<open>transform_points\<close> of \<^verbatim>\<open>kornia.geometry.linalg\<close> is not under
  src/. The spec has \<open>normalize_points\<close> return "the transformed points and the transform",
  and names the steps elsewhere: homogenize the point, multiply by the matrix, dehomogenize.
  The last step is guarded the way the library guards its divisions: where the last
  coordinate \<open>z\<close> exceeds \<open>1e-8\<close> in magnitude the other coordinates are multiplied by
  \<open>1 / (z + 1e-8)\<close>, and they are left as they are otherwise.
\<close>

definition transform_point :: "fl list list \<Rightarrow> fl list \<Rightarrow> fl list" where
  "transform_point M p =
     (let h = p @ [1];
          q = map (\<lambda>row. fsum (vmul row h)) M;
          z = last q;
          scale = (if eps_default < abs z then Fin 1 / (z + eps_default) else 1)
      in map (\<lambda>x. scale * x) (butlast q))"

definition transform_points :: "fl list list list \<Rightarrow> fl list list list \<Rightarrow> fl list list list" where
  "transform_points trans_01 points_1 =
     map2 (\<lambda>M pts. map (transform_point M) pts) trans_01 points_1"

text \<open>
  The transform of one batch element: the mean over \<^verbatim>\<open>dim=1\<close>, the mean distance to it, the
  scale and the nine stacked entries, viewed as a 3x3 matrix.
\<close>

definition points_transform :: "fl \<Rightarrow> fl list list \<Rightarrow> fl list list" where
  "points_transform eps pts =
     (let x_mean = [fmean (map (\<lambda>p. p ! 0) pts), fmean (map (\<lambda>p. p ! 1) pts)];
          scale = fmean (map (\<lambda>p. norm2 (vsub p x_mean)) pts);
          scale = fsqrt (Fin 2) / (scale + eps)
      in [[scale, 0, - scale * x_mean ! 0], [0, scale, - scale * x_mean ! 1], [0, 0, 1]])"

definition normalize_points ::
  "tensor \<Rightarrow> fl \<Rightarrow> error + (fl list list list \<times> fl list list list)" where
  "normalize_points points eps =
     (if length (shape points) \<noteq> 3 then Inl AssertionError
      else if last (shape points) \<noteq> 2 then Inl AssertionError
      else (case points of
              T3 ps \<Rightarrow>
                (let transform = map (points_transform eps) ps;
                     points_norm = transform_points transform ps
                 in Inr (points_norm, transform))
            | _ \<Rightarrow> Inl AssertionError))"

section \<open>Matrices\<close>

text \<open>Broadcasting of two batches: equal sizes pair up, a batch of one is repeated.\<close>

definition broadcast2 :: "'a list \<Rightarrow> 'b list \<Rightarrow> error + ('a \<times> 'b) list" where
  "broadcast2 xs ys =
     (if length xs = length ys then Inr (zip xs ys)
      else if length xs = 1 then Inr (zip (replicate (length ys) (hd xs)) ys)
      else if length ys = 1 then Inr (zip xs (replicate (length xs) (hd ys)))
      else Inl RuntimeError)"

fun sequence :: "(error + 'a) list \<Rightarrow> error + 'a list" where
  "sequence [] = Inr []"
| "sequence (x # xs) = bnd x (\<lambda>v. bnd (sequence xs) (\<lambda>vs. Inr (v # vs)))"

definition mm :: "fl list list \<Rightarrow> fl list list \<Rightarrow> error + fl list list" where
  "mm A B =
     (if list_all (\<lambda>row. length row = length B) A
      then Inr (map (\<lambda>row. map (\<lambda>col. fsum (vmul row col)) (transpose B)) A)
      else Inl RuntimeError)"

text \<open>\<^verbatim>\<open>A @ B\<close> on batches of matrices\<close>

definition bmm :: "fl list list list \<Rightarrow> fl list list list \<Rightarrow> error + fl list list list" where
  "bmm As Bs = bnd (broadcast2 As Bs) (\<lambda>prs. sequence (map (\<lambda>(A, B). mm A B) prs))"

definition diag_embed :: "fl list \<Rightarrow> fl list list" where
  "diag_embed s =
     map (\<lambda>i. map (\<lambda>j. if i = j then s ! i else 0) [0..<length s]) [0..<length s]"

text \<open>
  The rows of the bilinear epipolar constraint: \<^verbatim>\<open>chunk\<close> splits the points into their two
  coordinates, the products are taken elementwise and the nine tensors are concatenated
  along the last dimension. The concatenation needs them all of one shape, so two batches of
  different sizes are a RuntimeError, a batch of one included.
\<close>

definition design_row :: "fl list \<Rightarrow> fl list \<Rightarrow> fl list" where
  "design_row p1 p2 =
     (let x1 = p1 ! 0; y1 = p1 ! 1; x2 = p2 ! 0; y2 = p2 ! 1
      in [x2 * x1, x2 * y1, x2, y2 * x1, y2 * y1, y2, x1, y1, 1])"

definition design_matrix ::
  "fl list list list \<Rightarrow> fl list list list \<Rightarrow> error + fl list list list" where
  "design_matrix points1_norm points2_norm =
     (if length points1_norm = length points2_norm \<and>
         list_all (\<lambda>(ps1, ps2). length ps1 = length ps2) (zip points1_norm points2_norm)
      then Inr (map (\<lambda>(ps1, ps2). map2 design_row ps1 ps2) (zip points1_norm points2_norm))
      else Inl RuntimeError)"

text \<open>
  \<^verbatim>\<open>_torch_svd_cast\<close> is an external collaborator: the estimators take it as the parameter
  \<open>svd\<close>, which returns \<open>(U, S, V)\<close> for a batch of matrices, or raises.
\<close>

type_synonym svd_fun =
  "fl list list list \<Rightarrow> error + (fl list list list \<times> fl list list \<times> fl list list list)"

section \<open>run_7point\<close>

text \<open>
  Modelled from the spec: \<^verbatim>\<open>KORNIA_CHECK_SHAPE\<close> of \<^verbatim>\<open>kornia.core.check\<close> is not under
  src/. The spec has a wrong rank or shape rejected before any computation; the pattern
  \<^verbatim>\<open>['B', '7', '2']\<close> asks for rank 3 with the last two dimensions 7 and 2. The rejection
  is the library's TypeError.
\<close>

definition check_shape_B72 :: "tensor \<Rightarrow> error + unit" where
  "check_shape_B72 x =
     (if length (shape x) = 3 \<and> shape x ! 1 = 7 \<and> shape x ! 2 = 2 then Inr ()
      else Inl TypeError)"

text \<open>
  Python's call \<^verbatim>\<open>f(*t)\<close> iterates the tensor \<open>t\<close> along its first dimension and passes
  the slices as positional arguments; a 0-d tensor cannot be iterated.
\<close>

fun unpack :: "tensor \<Rightarrow> error + tensor list" where
  "unpack (T0 _) = Inl TypeError"
| "unpack (T1 xs) = Inr (map T0 xs)"
| "unpack (T2 xs) = Inr (map T1 xs)"
| "unpack (T3 xs) = Inr (map T2 xs)"

text \<open>
  A function declared with one positional parameter, as \<^verbatim>\<open>def solve_cubic(coeffs)\<close> is:
  the arguments are bound before the body runs, and any other number of them is a
  TypeError.
\<close>

definition call1 :: "(tensor \<Rightarrow> error + 'r) \<Rightarrow> tensor list \<Rightarrow> error + 'r" where
  "call1 f args = (case args of [x] \<Rightarrow> f x | _ \<Rightarrow> Inl TypeError)"

text \<open>
  \<open>solve_cubic\<close> as a callee: its first statement \<^verbatim>\<open>coeffs[:, 0]\<close> raises IndexError on
  a tensor of rank below 2. A rank above 2 is outside its documented input \<open>(B, 4)\<close>.
\<close>

definition solve_cubic_callee :: "tensor \<Rightarrow> error + fl list list" where
  "solve_cubic_callee coeffs = (case coeffs of T2 rows \<Rightarrow> solve_cubic rows | _ \<Rightarrow> Inl IndexError)"

definition index :: "'a list \<Rightarrow> nat \<Rightarrow> error + 'a" where
  "index xs i = (if i < length xs then Inr (xs ! i) else Inl IndexError)"

text \<open>The four coefficients of the cubic \<open>det (\<lambda> f1 + (1 - \<lambda>) f2) = 0\<close>, leading one first.\<close>

definition cubic_coeffs :: "fl list \<Rightarrow> fl list \<Rightarrow> fl list" where
  "cubic_coeffs f1 f2 =
     (let t0 = f2 ! 4 * f2 ! 8 - f2 ! 5 * f2 ! 7;
          t1 = f2 ! 3 * f2 ! 8 - f2 ! 5 * f2 ! 6;
          t2 = f2 ! 3 * f2 ! 7 - f2 ! 4 * f2 ! 6;
          c3 = 0 + (f2 ! 0 * t0 - f2 ! 1 * t1 + f2 ! 2 * t2);
          c2 = 0 + (f1 ! 0 * t0 - f1 ! 1 * t1 + f1 ! 2 * t2
                    - f1 ! 3 * (f2 ! 1 * f2 ! 8 - f2 ! 2 * f2 ! 7)
                    + f1 ! 4 * (f2 ! 0 * f2 ! 8 - f2 ! 2 * f2 ! 6)
                    - f1 ! 5 * (f2 ! 0 * f2 ! 7 - f2 ! 1 * f2 ! 6)
                    + f1 ! 6 * (f2 ! 1 * f2 ! 5 - f2 ! 2 * f2 ! 4)
                    - f1 ! 7 * (f2 ! 0 * f2 ! 5 - f2 ! 2 * f2 ! 3)
                    + f1 ! 8 * (f2 ! 0 * f2 ! 4 - f2 ! 1 * f2 ! 3));
          t0 = f1 ! 4 * f1 ! 8 - f1 ! 5 * f1 ! 7;
          t1 = f1 ! 3 * f1 ! 8 - f1 ! 5 * f1 ! 6;
          t2 = f1 ! 3 * f1 ! 7 - f1 ! 4 * f1 ! 6;
          c1 = 0 + (f2 ! 0 * t0 - f2 ! 1 * t1 + f2 ! 2 * t2
                    - f2 ! 3 * (f1 ! 1 * f1 ! 8 - f1 ! 2 * f1 ! 7)
                    + f2 ! 4 * (f1 ! 0 * f1 ! 8 - f1 ! 2 * f1 ! 6)
                    - f2 ! 5 * (f1 ! 0 * f1 ! 7 - f1 ! 1 * f1 ! 6)
                    + f2 ! 6 * (f1 ! 1 * f1 ! 5 - f1 ! 2 * f1 ! 4)
                    - f2 ! 7 * (f1 ! 0 * f1 ! 5 - f1 ! 2 * f1 ! 3)
                    + f2 ! 8 * (f1 ! 0 * f1 ! 4 - f1 ! 1 * f1 ! 3));
          c0 = 0 + (f1 ! 0 * t0 - f1 ! 1 * t1 + f1 ! 2 * t2)
      in [c0, c1, c2, c3])"

text \<open>
  One pass of the loop over the roots. \<open>root_i\<close> is \<^verbatim>\<open>roots[i]\<close>, a row of the solver's
  result, so \<^verbatim>\<open>_s\<close> has as many entries as the row; the condition of the \<^verbatim>\<open>if\<close> needs a
  tensor of exactly one entry (RuntimeError otherwise). The matrix of the pass is
  broadcast against the batches of transforms, and the assignment \<^verbatim>\<open>fmatrix[i] = fmat\<close>
  needs a batch of one.
\<close>

definition candidate_7point ::
  "fl list \<Rightarrow> fl list \<Rightarrow> fl list list list \<Rightarrow> fl list list list \<Rightarrow> fl list \<Rightarrow> error + fl list list" where
  "candidate_7point f1 f2 transform1 transform2 root_i =
     (case map (\<lambda>r. f1 ! 8 * r + f2 ! 8) root_i of
        [s] \<Rightarrow>
          (let (lam, mu, f22) =
                 (if Fin (1 / 10 ^ 16) < abs s then (hd root_i * (Fin 1 / s), Fin 1 / s, Fin 1)
                  else (hd root_i, Fin 1, Fin 0));
               fmat = map (\<lambda>r. map (\<lambda>c. if r = 2 \<and> c = 2 then f22
                                         else f1 ! (3 * r + c) * lam + f2 ! (3 * r + c) * mu)
                                  [0..<3]) [0..<3]
           in bnd (bmm [fmat] transform1) (\<lambda>m1.
              bnd (bmm (map transpose transform2) m1) (\<lambda>m2.
              bnd (normalize_transformation (T3 m2) eps_default) (\<lambda>t.
                case t of T3 [m] \<Rightarrow> Inr m | _ \<Rightarrow> Inl RuntimeError))))
      | _ \<Rightarrow> Inl RuntimeError)"

definition run_7point :: "svd_fun \<Rightarrow> tensor \<Rightarrow> tensor \<Rightarrow> error + tensor" where
  "run_7point svd points1 points2 =
     bnd (check_shape_B72 points1) (\<lambda>_.
     bnd (check_shape_B72 points2) (\<lambda>_.
     bnd (normalize_points points1 eps_default) (\<lambda>(points1_norm, transform1).
     bnd (normalize_points points2 eps_default) (\<lambda>(points2_norm, transform2).
     bnd (design_matrix points1_norm points2_norm) (\<lambda>X.
     bnd (svd X) (\<lambda>(_, _, v).
     bnd (index v 0) (\<lambda>v0.
     bnd (column v0 7) (\<lambda>f1.
     bnd (column v0 8) (\<lambda>f2.
       if length f1 < 9 then Inl IndexError
       else
         bnd (unpack (T1 (cubic_coeffs f1 f2))) (\<lambda>args.
         bnd (call1 solve_cubic_callee args) (\<lambda>roots.
           let n = length roots
           in if n < 1 \<or> 3 < n then Inr (T2 (replicate 3 (replicate 3 0)))
              else bnd (sequence (map (candidate_7point f1 f2 transform1 transform2) roots))
                     (\<lambda>fmatrix. Inr (T3 fmatrix)))))))))))))"

section \<open>run_8point\<close>

text \<open>\<^verbatim>\<open>V[..., -1]\<close>: the last column of every matrix of the batch\<close>

definition last_column :: "fl list list list \<Rightarrow> error + fl list list" where
  "last_column V =
     (if list_all (list_all (\<lambda>row. row \<noteq> [])) V then Inr (map (map last) V)
      else Inl IndexError)"

text \<open>\<^verbatim>\<open>view(-1, 3, 3)\<close>: the entries, in order, as 3x3 matrices; their number must allow it.\<close>

fun rows_of :: "nat \<Rightarrow> nat \<Rightarrow> fl list \<Rightarrow> fl list list" where
  "rows_of 0 k xs = []"
| "rows_of (Suc n) k xs = take k xs # rows_of n k (drop k xs)"

definition view33 :: "fl list \<Rightarrow> error + fl list list list" where
  "view33 xs =
     (if length xs mod 9 = 0
      then Inr (map (rows_of 3 3) (rows_of (length xs div 9) 9 xs))
      else Inl RuntimeError)"

text \<open>
  \<^verbatim>\<open>S * rank_mask\<close> with \<^verbatim>\<open>rank_mask = [1, 1, 0]\<close>: the decomposition of a 3x3 matrix has
  three singular values; any other number does not broadcast against the mask.
\<close>

definition apply_rank_mask :: "fl list list \<Rightarrow> error + fl list list" where
  "apply_rank_mask S =
     (if list_all (\<lambda>s. length s = 3) S then Inr (map (\<lambda>s. vmul s [Fin 1, Fin 1, Fin 0]) S)
      else Inl RuntimeError)"

definition run_8point :: "svd_fun \<Rightarrow> tensor \<Rightarrow> tensor \<Rightarrow> tensor option \<Rightarrow> error + tensor" where
  "run_8point svd points1 points2 weights =
     (if shape points1 \<noteq> shape points2 then Inl AssertionError
      else if length (shape points1) < 2 then Inl IndexError
      else if shape points1 ! 1 < 8 then Inl AssertionError
      else if (case weights of
                 None \<Rightarrow> False
               | Some w \<Rightarrow> \<not> (length (shape w) = 2 \<and> shape w ! 1 = shape points1 ! 1))
           then Inl AssertionError
      else
        bnd (normalize_points points1 eps_default) (\<lambda>(points1_norm, transform1).
        bnd (normalize_points points2 eps_default) (\<lambda>(points2_norm, transform2).
        bnd (design_matrix points1_norm points2_norm) (\<lambda>X.
        bnd (case weights of
               None \<Rightarrow> bmm (map transpose X) X
             | Some w \<Rightarrow>
                 (case w of
                    T2 ws \<Rightarrow> bnd (bmm (map transpose X) (map diag_embed ws)) (\<lambda>Xw. bmm Xw X)
                  | _ \<Rightarrow> Inl AssertionError)) (\<lambda>X.
        bnd (svd X) (\<lambda>(_, _, V).
        bnd (last_column V) (\<lambda>cols.
        bnd (view33 (concat cols)) (\<lambda>F_mat.
        bnd (svd F_mat) (\<lambda>(U, S, V).
        bnd (apply_rank_mask S) (\<lambda>S_masked.
        bnd (bmm (map diag_embed S_masked) (map transpose V)) (\<lambda>SV.
        bnd (bmm U SV) (\<lambda>F_projected.
        bnd (bmm F_projected transform1) (\<lambda>F1.
        bnd (bmm (map transpose transform2) F1) (\<lambda>F_est.
          normalize_transformation (T3 F_est) eps_default))))))))))))))"

section \<open>find_fundamental\<close>

text \<open>
  \<^verbatim>\<open>str.upper\<close> on the characters of ASCII: the letters \<open>a\<close> to \<open>z\<close> go to \<open>A\<close> to \<open>Z\<close>,
  every other character stays. Code points beyond ASCII are not modelled.
\<close>

definition upper_char :: "char \<Rightarrow> char" where
  "upper_char c =
     (if 97 \<le> (of_char c :: nat) \<and> (of_char c :: nat) \<le> 122
      then char_of ((of_char c :: nat) - 32) else c)"

definition upper :: "string \<Rightarrow> string" where
  "upper s = map upper_char s"

definition find_fundamental ::
  "svd_fun \<Rightarrow> tensor \<Rightarrow> tensor \<Rightarrow> tensor option \<Rightarrow> string \<Rightarrow> error + tensor" where
  "find_fundamental svd points1 points2 weights method =
     (if upper method = ''7POINT'' then run_7point svd points1 points2
      else if upper method = ''8POINT'' then run_8point svd points1 points2 weights
      else Inl ValueError)"

section \<open>Finite inputs\<close>

text \<open>
  What \<open>normalize_mat\<close> computes on a matrix of finite entries, over the reals: \<open>v\<close> is the
  bottom-right entry.
\<close>

definition normalize_real :: "real \<Rightarrow> real list list \<Rightarrow> real list list" where
  "normalize_real eps M =
     (let v = last (last M)
      in if eps < \<bar>v\<bar> then map (map (\<lambda>m. m / (v + eps))) M else M)"

text \<open>
  A batch of finite 2D points as a tensor of shape \<open>(B, N, 2)\<close>, and the two quantities the
  specification measures on a point set: its centroid and the mean Euclidean distance of
  its points from the centroid.
\<close>

definition enc_points :: "(real \<times> real) list \<Rightarrow> fl list list" where
  "enc_points ps = map (\<lambda>p. [Fin (fst p), Fin (snd p)]) ps"

definition points_tensor :: "(real \<times> real) list list \<Rightarrow> tensor" where
  "points_tensor P = T3 (map enc_points P)"

definition centroid :: "(real \<times> real) list \<Rightarrow> real \<times> real" where
  "centroid ps =
     (sum_list (map fst ps) / real (length ps), sum_list (map snd ps) / real (length ps))"

definition mean_distance :: "(real \<times> real) list \<Rightarrow> real" where
  "mean_distance ps =
     sum_list (map (\<lambda>p. sqrt ((fst p - fst (centroid ps)) * (fst p - fst (centroid ps)) +
                              (snd p - snd (centroid ps)) * (snd p - snd (centroid ps)))) ps)
       / real (length ps)"

text \<open>
  What \<open>normalize_points\<close> computes on one finite point set, over the reals: the scale, the
  points (\<open>dehom_real\<close> is the factor of the dehomogenisation at last coordinate 1) and the
  transform.
\<close>

definition scale_real :: "real \<Rightarrow> (real \<times> real) list \<Rightarrow> real" where
  "scale_real eps ps = sqrt 2 / (mean_distance ps + eps)"

definition dehom_real :: real where
  "dehom_real = 1 / (1 + 1 / 10 ^ 8)"

definition normalized_real :: "real \<Rightarrow> (real \<times> real) list \<Rightarrow> (real \<times> real) list" where
  "normalized_real eps ps =
     map (\<lambda>p. (dehom_real * (scale_real eps ps * (fst p - fst (centroid ps))),
                dehom_real * (scale_real eps ps * (snd p - snd (centroid ps))))) ps"

definition transform_real :: "real \<Rightarrow> (real \<times> real) list \<Rightarrow> fl list list" where
  "transform_real eps ps =
     [[Fin (scale_real eps ps), Fin 0, Fin (- scale_real eps ps * fst (centroid ps))],
      [Fin 0, Fin (scale_real eps ps), Fin (- scale_real eps ps * snd (centroid ps))],
      [Fin 0, Fin 0, Fin 1]]"

text \<open>
  What \<open>solve_cubic\<close> computes for one batch element \<open>r = [a, b, c, d]\<close>: the quantities of
  the normalized form, the result of the low-order branches, the vectors of the branch
  \<open>D > 0\<close>, the three trigonometric roots, and the masked assignments in the order of the
  code. \<open>cubic_Q\<close> and \<open>cubic_R\<close> are \<open>Q\<close> and \<open>R\<close> on finite coefficients.
\<close>

definition row_ba :: "fl list \<Rightarrow> fl" where
  "row_ba r = Fin 1 / r ! 0 * r ! 1"

definition row_Q :: "fl list \<Rightarrow> fl" where
  "row_Q r = (Fin 3 * (Fin 1 / r ! 0 * r ! 2) - row_ba r * row_ba r) / Fin 9"

definition row_R :: "fl list \<Rightarrow> fl" where
  "row_R r = (Fin 9 * row_ba r * (Fin 1 / r ! 0 * r ! 2) - Fin 27 * (Fin 1 / r ! 0 * r ! 3)
              - Fin 2 * row_ba r * (row_ba r * row_ba r)) / Fin 54"

definition row_Q3 :: "fl list \<Rightarrow> fl" where
  "row_Q3 r = row_Q r * row_Q r * row_Q r"

definition row_D :: "fl list \<Rightarrow> fl" where
  "row_D r = row_Q3 r + row_R r * row_R r"

definition row_b3 :: "fl list \<Rightarrow> fl" where
  "row_b3 r = Fin (1 / 3) * row_ba r"

definition low_row :: "fl list \<Rightarrow> fl list" where
  "low_row r =
     (let s = [0, 0, 0];
          s = (if (feq (r ! 0) 0 \<and> \<not> feq (r ! 1) 0) \<and> \<not> feq (r ! 2) 0
               then quad_row (drop 1 r) @ drop 2 s else s);
          s = (if (feq (r ! 0) 0 \<and> feq (r ! 1) 0) \<and> \<not> feq (r ! 2) 0 then s[0 := 1] else s);
          s = (if (feq (r ! 0) 0 \<and> feq (r ! 1) 0) \<and> feq (r ! 2) 0 then s[0 := 0] else s)
      in s)"

definition row_A0 :: "fl list \<Rightarrow> fl" where
  "row_A0 r =
     (if Fin (1 / 10 ^ 16) < abs (row_R r) then pow_third (abs (row_R r) + fsqrt (row_D r))
      else 0)"

definition row_AD :: "fl list \<Rightarrow> fl" where
  "row_AD r = (if row_R r < 0 then - row_A0 r else row_A0 r)"

definition row_BD :: "fl list \<Rightarrow> fl" where
  "row_BD r = (if Fin (1 / 10 ^ 16) < abs (row_R r) then - row_Q r / row_AD r else 0)"

definition row_theta :: "fl list \<Rightarrow> fl" where
  "row_theta r = facos (row_R r / fsqrt (- row_Q3 r))"

definition row_x0 :: "fl list \<Rightarrow> fl" where
  "row_x0 r = Fin 2 * fsqrt (- row_Q r) * fcos (row_theta r / Fin 3) - row_b3 r"

definition row_x1 :: "fl list \<Rightarrow> fl" where
  "row_x1 r =
     Fin 2 * fsqrt (- row_Q r) * fcos ((row_theta r + Fin 2 * Fin pi) / Fin 3) - row_b3 r"

definition row_x2 :: "fl list \<Rightarrow> fl" where
  "row_x2 r =
     Fin 2 * fsqrt (- row_Q r) * fcos ((row_theta r + Fin 4 * Fin pi) / Fin 3) - row_b3 r"

definition cubic_row :: "fl list \<Rightarrow> fl list" where
  "cubic_row r =
     (let s = low_row r;
          s = (if \<not> feq (r ! 0) 0 \<and> feq (row_Q r) 0 \<and> \<not> feq (row_R r) 0
               then s[0 := pow_third (Fin 2 * row_R r) - row_b3 r] else s);
          s = (if \<not> feq (r ! 0) 0 \<and> feq (row_Q r) 0 \<and> feq (row_R r) 0
               then [- row_b3 r, - row_b3 r, - row_b3 r] else s);
          s = (if \<not> feq (r ! 0) 0 \<and> row_D r \<le> 0 \<and> \<not> feq (row_Q r) 0
               then [row_x0 r, row_x1 r, row_x2 r] else s);
          s = (if \<not> feq (r ! 0) 0 \<and> 0 < row_D r \<and> \<not> feq (row_Q r) 0
               then s[0 := row_AD r + row_BD r - row_b3 r] else s)
      in s)"

definition cubic_Q :: "real \<Rightarrow> real \<Rightarrow> real \<Rightarrow> real" where
  "cubic_Q a b c = (3 * (c / a) - (b / a) * (b / a)) / 9"

definition cubic_R :: "real \<Rightarrow> real \<Rightarrow> real \<Rightarrow> real \<Rightarrow> real" where
  "cubic_R a b c d =
     (9 * (b / a) * (c / a) - 27 * (d / a) - 2 * (b / a) * ((b / a) * (b / a))) / 54"

section \<open>Concrete inputs\<close>

text \<open>
  Seven correspondences of shape \<open>(1, 7, 2)\<close>, and a stand-in for the decomposition that
  returns a 9x9 matrix of right singular vectors: the properties below that use them do not
  depend on the entries.
\<close>

definition pts7 :: tensor where
  "pts7 = points_tensor [[(0, 0), (1, 0), (0, 1), (1, 1), (2, 0), (0, 2), (2, 1)]]"

definition svd_stub :: svd_fun where
  "svd_stub X = Inr ([], [], [replicate 9 (replicate 9 (Fin 0))])"

section \<open>Properties\<close>

subsection \<open>Masks\<close>

lemma select_Cons [simp]:
  "select (m # ms) (x # xs) = (if m then x # select ms xs else select ms xs)"
  by (simp add: select_def)

lemma select_Nil [simp]: "select [] xs = []" "select ms [] = []"
  by (simp_all add: select_def)

lemma select_map: "map f (select ms xs) = select ms (map f xs)"
proof (induction ms arbitrary: xs)
  case Nil
  then show ?case by simp
next
  case (Cons m ms)
  then show ?case by (cases xs) auto
qed

lemma select_map2: "map2 f (select ms xs) (select ms ys) = select ms (map2 f xs ys)"
proof (induction ms arbitrary: xs ys)
  case Nil
  then show ?case by simp
next
  case (Cons m ms)
  show ?case
  proof (cases xs)
    case Nil
    then show ?thesis by simp
  next
    case xs: (Cons x xs')
    show ?thesis
    proof (cases ys)
      case Nil
      then show ?thesis by simp
    next
      case (Cons y ys')
      with xs Cons.IH show ?thesis by simp
    qed
  qed
qed

lemma scatter_with_select:
  "length rs = length ms \<Longrightarrow> length ws = length ms \<Longrightarrow>
   scatter_with u ms rs (select ms ws) =
     map (\<lambda>(m, r, w). if m then u w r else r) (zip ms (zip rs ws))"
proof (induction ms arbitrary: rs ws)
  case Nil
  then show ?case by simp
next
  case (Cons m ms)
  then obtain r rs' w ws' where "rs = r # rs'" "ws = w # ws'"
    by (metis length_Suc_conv)
  with Cons show ?case by simp
qed


lemma column_ok: "list_all (\<lambda>r. j < length r) rows \<Longrightarrow> column rows j = Inr (map (\<lambda>r. r ! j) rows)"
  by (simp add: column_def)

lemma scatter_col_select:
  "length rs = length ms \<Longrightarrow> length ws = length ms \<Longrightarrow>
   scatter_col ms j rs (select ms ws) =
     map (\<lambda>(m, r, w). if m then r[j := w] else r) (zip ms (zip rs ws))"
  by (simp add: scatter_col_def scatter_with_select)

lemma bnd_Inr [simp]: "bnd (Inr v) f = f v"
  by (simp add: bnd_def)

lemma bnd_Inl [simp]: "bnd (Inl e) f = Inl e"
  by (simp add: bnd_def)

lemma bnd_eq_Inr: "bnd m f = Inr y \<longleftrightarrow> (\<exists>v. m = Inr v \<and> f v = Inr y)"
  by (cases m) simp_all

subsection \<open>solve_quadratic\<close>

lemma solve_quadratic_rows:
  assumes "list_all (\<lambda>r. 3 \<le> length r) coeffs"
  shows "solve_quadratic coeffs = Inr (map quad_row coeffs)"
proof -
  have c0: "column coeffs 0 = Inr (map (\<lambda>r. r ! 0) coeffs)"
    and c1: "column coeffs 1 = Inr (map (\<lambda>r. r ! 1) coeffs)"
    and c2: "column coeffs 2 = Inr (map (\<lambda>r. r ! 2) coeffs)"
    using assms by (force intro!: column_ok simp: list_all_iff)+
  define a where "a = map (\<lambda>r. r ! 0) coeffs"
  define b where "b = map (\<lambda>r. r ! 1) coeffs"
  define c where "c = map (\<lambda>r. r ! 2) coeffs"
  define delta where "delta = vsub (vmul b b) (vmul (smul (Fin 4) a) c)"
  define mn where "mn = map (\<lambda>d. d < 0) delta"
  define mz where "mz = map (\<lambda>d. feq d 0) delta"
  define mask where "mask = mand (mnot mn) (mnot mz)"
  define sol0 where "sol0 = replicate (length coeffs) [0::fl, 0]"
  define sol1 where "sol1 = (if any mn then fill_rows mn sol0 0 else sol0)"
  define w0 where "w0 = vmul (vadd (vneg b) (map fsqrt delta)) (inv_2a_of a)"
  define w1 where "w1 = vmul (vsub (vneg b) (map fsqrt delta)) (inv_2a_of a)"
  define sol2 where "sol2 = scatter_col mask 0 sol1 (select mask w0)"
  define sol3 where "sol3 = scatter_col mask 1 sol2 (select mask w1)"
  have len: "length a = length coeffs" "length b = length coeffs" "length c = length coeffs"
    by (simp_all add: a_def b_def c_def)
  have lend: "length delta = length coeffs"
    by (simp add: delta_def vsub_def vmul_def smul_def len)
  have lenm: "length mask = length coeffs" "length mn = length coeffs"
    by (simp_all add: mask_def mand_def mnot_def mn_def mz_def lend)
  have lenw: "length w0 = length coeffs" "length w1 = length coeffs"
    by (simp_all add: w0_def w1_def vmul_def vadd_def vsub_def vneg_def inv_2a_of_def sdiv_def len lend)
  have sol1_eq: "sol1 = sol0"
    by (auto simp: sol1_def sol0_def fill_rows_def list_eq_iff_nth_eq lenm)
  have sel0: "vmul (vadd (vneg (select mask b)) (select mask (map fsqrt delta))) (select mask (inv_2a_of a))
      = select mask w0"
    by (simp add: w0_def vmul_def vadd_def vneg_def select_map select_map2)
  have sel1: "vmul (vsub (vneg (select mask b)) (select mask (map fsqrt delta))) (select mask (inv_2a_of a))
      = select mask w1"
    by (simp add: w1_def vmul_def vsub_def vneg_def select_map select_map2)
  have sol3_nth: "sol3 ! i = quad_row (coeffs ! i)" if "i < length coeffs" for i
  proof -
    have d: "delta ! i = (coeffs ! i) ! 1 * (coeffs ! i) ! 1 - Fin 4 * (coeffs ! i) ! 0 * (coeffs ! i) ! 2"
      using that by (simp add: delta_def vsub_def vmul_def smul_def a_def b_def c_def)
    have m: "mask ! i = (\<not> delta ! i < 0 \<and> \<not> feq (delta ! i) 0)"
      using that by (simp add: mask_def mand_def mnot_def mn_def mz_def lend)
    have w0: "w0 ! i = (- ((coeffs ! i) ! 1) + fsqrt (delta ! i)) * (Fin (1/2) / (coeffs ! i) ! 0)"
      using that by (simp add: w0_def vmul_def vadd_def vneg_def inv_2a_of_def sdiv_def a_def b_def lend)
    have w1: "w1 ! i = (- ((coeffs ! i) ! 1) - fsqrt (delta ! i)) * (Fin (1/2) / (coeffs ! i) ! 0)"
      using that by (simp add: w1_def vmul_def vsub_def vneg_def inv_2a_of_def sdiv_def a_def b_def lend)
    have "sol3 ! i = (if mask ! i then [w0 ! i, w1 ! i] else [0, 0])"
      using that
      by (simp add: sol3_def sol2_def sol1_eq scatter_col_select lenm lenw sol0_def)
    then show ?thesis
      by (simp add: quad_row_def Let_def d m w0 w1)
  qed
  have len3: "length sol3 = length coeffs"
    by (simp add: sol3_def sol2_def sol1_eq scatter_col_select lenm lenw sol0_def)
  have sol3_eq: "sol3 = map quad_row coeffs"
    using sol3_nth len3 by (simp add: list_eq_iff_nth_eq)
  have noany: "sol1 = map quad_row coeffs" if "\<not> any mask"
  proof -
    have "\<not> mask ! i" if "i < length coeffs" for i
      using \<open>\<not> any mask\<close> that lenm by (auto simp: any_def in_set_conv_nth)
    then have "sol3 = sol1"
      by (simp add: sol3_def sol2_def sol1_eq scatter_col_select lenm lenw sol0_def list_eq_iff_nth_eq)
    with sol3_eq show ?thesis by simp
  qed
  have "solve_quadratic coeffs = Inr (if any mask then sol3 else sol1)"
    unfolding solve_quadratic_def c0 c1 c2 bnd_def sum.case Let_def
    unfolding a_def [symmetric] b_def [symmetric] c_def [symmetric]
    unfolding delta_def [symmetric]
    unfolding mn_def [symmetric] mz_def [symmetric]
    unfolding mask_def [symmetric] sol0_def [symmetric]
    unfolding sol1_def [symmetric] sel0 sel1
    unfolding sol2_def [symmetric]
    unfolding sol3_def [symmetric]
    by (rule refl)
  then show ?thesis
    using sol3_eq noany by auto
qed

lemma solve_quadratic_nth:
  assumes "list_all (\<lambda>r. length r = 3) coeffs" and "i < length coeffs"
  shows "\<exists>sol. solve_quadratic coeffs = Inr sol \<and> length sol = length coeffs \<and>
           sol ! i = quad_row (coeffs ! i)"
proof -
  have "list_all (\<lambda>r. 3 \<le> length r) coeffs"
    using assms(1) by (simp add: list_all_iff)
  then have "solve_quadratic coeffs = Inr (map quad_row coeffs)"
    by (rule solve_quadratic_rows)
  with assms(2) show ?thesis by simp
qed

text \<open>
  C4. A batch element of \<open>solve_quadratic\<close> whose discriminant \<open>b * b - 4 * a * c\<close> is
  negative or equal to zero gets the two roots 0 and 0, whatever its coefficients are.
\<close>

theorem solve_quadratic_nonpositive_discriminant:
  assumes "list_all (\<lambda>r. length r = 3) coeffs" and "i < length coeffs"
    and "coeffs ! i = [a, b, c]"
    and "b * b - Fin 4 * a * c < 0 \<or> feq (b * b - Fin 4 * a * c) 0"
  shows "\<exists>sol. solve_quadratic coeffs = Inr sol \<and> length sol = length coeffs \<and>
           sol ! i = [0, 0]"
proof -
  have "quad_row (coeffs ! i) = [0, 0]"
    using assms(3,4) by (auto simp: quad_row_def Let_def)
  with solve_quadratic_nth [OF assms(1,2)] show ?thesis by auto
qed

theorem solve_quadratic_nonpositive_discriminant_witness:
  "list_all (\<lambda>r. length r = 3) [[Fin 1, Fin 2, Fin 5], [Fin 1, Fin 2, Fin 1]] \<and>
   Fin 2 * Fin 2 - Fin 4 * Fin 1 * Fin 5 < 0 \<and>
   feq (Fin 2 * Fin 2 - Fin 4 * Fin 1 * Fin 1) 0 \<and>
   (\<exists>sol. solve_quadratic [[Fin 1, Fin 2, Fin 5], [Fin 1, Fin 2, Fin 1]] = Inr sol \<and>
      sol ! 0 = [0, 0]) \<and>
   (\<exists>sol. solve_quadratic [[Fin 1, Fin 2, Fin 5], [Fin 1, Fin 2, Fin 1]] = Inr sol \<and>
      sol ! 1 = [0, 0])"
  using solve_quadratic_nonpositive_discriminant
          [of "[[Fin 1, Fin 2, Fin 5], [Fin 1, Fin 2, Fin 1]]" 0 "Fin 1" "Fin 2" "Fin 5"]
        solve_quadratic_nonpositive_discriminant
          [of "[[Fin 1, Fin 2, Fin 5], [Fin 1, Fin 2, Fin 1]]" 1 "Fin 1" "Fin 2" "Fin 1"]
  by (auto simp add: minus_fl_def zero_fl_def)

lemma quad_row_pos:
  assumes "a \<noteq> 0" and "0 < b * b - 4 * a * c"
  shows "quad_row [Fin a, Fin b, Fin c] =
           [Fin ((- b + sqrt (b * b - 4 * a * c)) / (2 * a)),
            Fin ((- b - sqrt (b * b - 4 * a * c)) / (2 * a))]"
  using assms by (simp add: quad_row_def Let_def minus_fl_def zero_fl_def)

text \<open>
  C5. A batch element of \<open>solve_quadratic\<close> with finite coefficients, \<open>a \<noteq> 0\<close> and a
  positive discriminant gets the roots \<open>(- b + sqrt \<Delta>) / (2 * a)\<close> and
  \<open>(- b - sqrt \<Delta>) / (2 * a)\<close>, in this order; on the coefficients \<open>(1, - 3, 2)\<close>
  the roots are 2 and 1.
\<close>

theorem solve_quadratic_positive_discriminant:
  "(\<forall>coeffs i a b c.
      list_all (\<lambda>r. length r = 3) coeffs \<and> i < length coeffs \<and>
      coeffs ! i = [Fin a, Fin b, Fin c] \<and> a \<noteq> 0 \<and> 0 < b * b - 4 * a * c \<longrightarrow>
      (\<exists>sol. solve_quadratic coeffs = Inr sol \<and> length sol = length coeffs \<and>
         sol ! i = [Fin ((- b + sqrt (b * b - 4 * a * c)) / (2 * a)),
                    Fin ((- b - sqrt (b * b - 4 * a * c)) / (2 * a))])) \<and>
   solve_quadratic [[Fin 1, Fin (- 3), Fin 2]] = Inr [[Fin 2, Fin 1]]"
proof (intro conjI allI impI)
  fix coeffs i a b c
  assume h: "list_all (\<lambda>r. length r = 3) coeffs \<and> i < length coeffs \<and>
      coeffs ! i = [Fin a, Fin b, Fin c] \<and> a \<noteq> 0 \<and> 0 < b * b - 4 * a * c"
  then have "quad_row (coeffs ! i) =
           [Fin ((- b + sqrt (b * b - 4 * a * c)) / (2 * a)),
            Fin ((- b - sqrt (b * b - 4 * a * c)) / (2 * a))]"
    by (simp add: quad_row_pos)
  with h solve_quadratic_nth [of coeffs i]
  show "\<exists>sol. solve_quadratic coeffs = Inr sol \<and> length sol = length coeffs \<and>
         sol ! i = [Fin ((- b + sqrt (b * b - 4 * a * c)) / (2 * a)),
                    Fin ((- b - sqrt (b * b - 4 * a * c)) / (2 * a))]"
    by auto
next
  show "solve_quadratic [[Fin 1, Fin (- 3), Fin 2]] = Inr [[Fin 2, Fin 1]]"
    by (simp add: solve_quadratic_rows quad_row_def zero_fl_def minus_fl_def)
qed

theorem solve_quadratic_positive_discriminant_witness:
  "(2::real) \<noteq> 0 \<and> (0::real) < 0 * 0 - 4 * 2 * (- 8) \<and>
   (\<exists>sol. solve_quadratic [[Fin 1, Fin 2, Fin 5], [Fin 2, Fin 0, Fin (- 8)]] = Inr sol \<and>
      length sol = 2 \<and> sol ! 1 = [Fin 2, Fin (- 2)])"
proof -
  have s: "sqrt 64 = 8"
    using real_sqrt_abs [of 8] by simp
  have "list_all (\<lambda>r. length r = 3) [[Fin 1, Fin 2, Fin 5], [Fin 2, Fin 0, Fin (- 8)]] \<and>
      (1::nat) < length [[Fin 1, Fin 2, Fin 5], [Fin 2, Fin 0, Fin (- 8)]] \<and>
      [[Fin 1, Fin 2, Fin 5], [Fin 2, Fin 0, Fin (- 8)]] ! 1 = [Fin 2, Fin 0, Fin (- 8)] \<and>
      (2::real) \<noteq> 0 \<and> (0::real) < 0 * 0 - 4 * 2 * (- 8)"
    by simp
  with solve_quadratic_positive_discriminant
  have "\<exists>sol. solve_quadratic [[Fin 1, Fin 2, Fin 5], [Fin 2, Fin 0, Fin (- 8)]] = Inr sol \<and>
      length sol = length [[Fin 1, Fin 2, Fin 5], [Fin 2, Fin 0, Fin (- 8)]] \<and>
      sol ! 1 = [Fin ((- 0 + sqrt (0 * 0 - 4 * 2 * (- 8))) / (2 * 2)),
                 Fin ((- 0 - sqrt (0 * 0 - 4 * 2 * (- 8))) / (2 * 2))]"
    by blast
  then show ?thesis by (auto simp add: s)
qed

lemma is_Fin_iff: "is_Fin x \<longleftrightarrow> (\<exists>a. x = Fin a)"
  by (cases x) auto

lemma fin_row3:
  assumes "length r = 3" and "list_all is_Fin r"
  obtains a b c where "r = [Fin a, Fin b, Fin c]"
proof -
  from assms(1) obtain x y z where r: "r = [x, y, z]"
    by (auto simp: numeral_3_eq_3 length_Suc_conv)
  with assms(2) show ?thesis
    using that by (auto simp: is_Fin_iff)
qed

lemma quad_row_finite:
  assumes "a \<noteq> 0"
  shows "list_all is_Fin (quad_row [Fin a, Fin b, Fin c])"
  using assms by (simp add: quad_row_def Let_def minus_fl_def zero_fl_def)

lemma quad_row_a_zero_eq:
  assumes "b \<noteq> 0"
  shows "quad_row [Fin 0, Fin b, Fin c] =
           (if 0 < b then [NaN, MInf] else [PInf, NaN])"
proof -
  have pos: "0 < b * b"
    using assms zero_less_power2 [of b] by (simp add: power2_eq_square)
  have d: "Fin b * Fin b - Fin 4 * Fin 0 * Fin c = Fin (b * b)"
    by (simp add: minus_fl_def)
  have s: "fsqrt (Fin (b * b)) = Fin \<bar>b\<bar>"
    using pos by simp
  have q: "quad_row [Fin 0, Fin b, Fin c] =
      [(- Fin b + Fin \<bar>b\<bar>) * PInf, (- Fin b - Fin \<bar>b\<bar>) * PInf]"
    unfolding quad_row_def Let_def using pos assms
    by (simp only: nth_Cons_0 nth_Cons_Suc One_nat_def numeral_2_eq_2 d s)
       (simp add: zero_fl_def)
  show ?thesis
  proof (cases "0 < b")
    case True
    then show ?thesis unfolding q by (simp add: minus_fl_def)
  next
    case False
    with assms have "b < 0" by simp
    then show ?thesis unfolding q by (simp add: minus_fl_def)
  qed
qed

text \<open>
  C9. \<open>solve_quadratic\<close> computes \<open>0.5 / a\<close> for every batch element, with no guard. When
  all coefficients are finite and every \<open>a\<close> is nonzero, these quotients and all returned
  roots are finite. At \<open>a = 0\<close> with a positive discriminant (\<open>b \<noteq> 0\<close>) the quotient is
  infinite and neither returned root is a finite number.
\<close>

theorem solve_quadratic_division:
  "(\<forall>a i. i < length a \<longrightarrow>
      length (inv_2a_of a) = length a \<and> inv_2a_of a ! i = Fin (1 / 2) / a ! i) \<and>
   (\<forall>coeffs. list_all (\<lambda>r. length r = 3 \<and> list_all is_Fin r \<and> \<not> feq (r ! 0) 0) coeffs \<longrightarrow>
      list_all is_Fin (inv_2a_of (map (\<lambda>r. r ! 0) coeffs)) \<and>
      (\<exists>sol. solve_quadratic coeffs = Inr sol \<and> list_all (list_all is_Fin) sol)) \<and>
   (\<forall>b c. b \<noteq> 0 \<longrightarrow>
      0 < Fin b * Fin b - Fin 4 * Fin 0 * Fin c \<and> inv_2a_of [Fin 0] = [PInf] \<and>
      (\<exists>r0 r1. solve_quadratic [[Fin 0, Fin b, Fin c]] = Inr [[r0, r1]] \<and>
         \<not> is_Fin r0 \<and> \<not> is_Fin r1))"
proof (intro conjI allI impI)
  fix a :: "fl list" and i
  assume "i < length a"
  then show "length (inv_2a_of a) = length a" "inv_2a_of a ! i = Fin (1 / 2) / a ! i"
    by (simp_all add: inv_2a_of_def sdiv_def)
next
  fix coeffs
  assume h: "list_all (\<lambda>r. length r = 3 \<and> list_all is_Fin r \<and> \<not> feq (r ! 0) 0) coeffs"
  have row: "is_Fin (Fin (1 / 2) / r ! 0) \<and> list_all is_Fin (quad_row r)" if "r \<in> set coeffs" for r
  proof -
    from h that have l: "length r = 3" and f: "list_all is_Fin r" and nz: "\<not> feq (r ! 0) 0"
      by (auto simp: list_all_iff)
    from l f obtain a b c where r: "r = [Fin a, Fin b, Fin c]"
      by (rule fin_row3)
    with nz have "a \<noteq> 0" by (simp add: zero_fl_def)
    with r show ?thesis by (simp add: quad_row_finite)
  qed
  then show "list_all is_Fin (inv_2a_of (map (\<lambda>r. r ! 0) coeffs))"
    by (simp add: inv_2a_of_def sdiv_def list_all_iff)
  have "list_all (\<lambda>r. 3 \<le> length r) coeffs"
    using h by (simp add: list_all_iff)
  then have "solve_quadratic coeffs = Inr (map quad_row coeffs)"
    by (rule solve_quadratic_rows)
  moreover have "list_all (list_all is_Fin) (map quad_row coeffs)"
    using row by (simp add: list_all_iff)
  ultimately show "\<exists>sol. solve_quadratic coeffs = Inr sol \<and> list_all (list_all is_Fin) sol"
    by simp
next
  fix b c :: real
  assume b: "b \<noteq> 0"
  then have "0 < b * b"
    using zero_less_power2 [of b] by (simp add: power2_eq_square)
  then show "0 < Fin b * Fin b - Fin 4 * Fin 0 * Fin c"
    by (simp add: minus_fl_def zero_fl_def)
  show "inv_2a_of [Fin 0] = [PInf]"
    by (simp add: inv_2a_of_def sdiv_def)
  from quad_row_a_zero_eq [OF b, of c]
  show "\<exists>r0 r1. solve_quadratic [[Fin 0, Fin b, Fin c]] = Inr [[r0, r1]] \<and>
         \<not> is_Fin r0 \<and> \<not> is_Fin r1"
    by (simp add: solve_quadratic_rows)
qed


theorem solve_quadratic_division_witness:
  "list_all (\<lambda>r. length r = 3 \<and> list_all is_Fin r \<and> \<not> feq (r ! 0) 0)
     [[Fin 1, Fin (- 3), Fin 2], [Fin 2, Fin 1, Fin 7]] \<and>
   (\<exists>sol. solve_quadratic [[Fin 1, Fin (- 3), Fin 2], [Fin 2, Fin 1, Fin 7]] = Inr sol \<and>
      list_all (list_all is_Fin) sol) \<and>
   inv_2a_of [Fin 4, Fin 0] ! 1 = PInf \<and>
   (\<exists>r0 r1. solve_quadratic [[Fin 0, Fin 1, Fin 5]] = Inr [[r0, r1]] \<and>
      \<not> is_Fin r0 \<and> \<not> is_Fin r1)"
proof -
  have w: "list_all (\<lambda>r. length r = 3 \<and> list_all is_Fin r \<and> \<not> feq (r ! 0) 0)
     [[Fin 1, Fin (- 3), Fin 2], [Fin 2, Fin 1, Fin 7]]"
    by (simp add: zero_fl_def)
  have i: "(1::nat) < length [Fin 4, Fin 0]" and b: "(1::real) \<noteq> 0"
    by simp_all
  note t = solve_quadratic_division
  have p1: "inv_2a_of [Fin 4, Fin 0] ! 1 = Fin (1 / 2) / [Fin 4, Fin 0] ! 1"
    using t [THEN conjunct1, rule_format, OF i] by (rule conjunct2)
  have p2: "\<exists>sol. solve_quadratic [[Fin 1, Fin (- 3), Fin 2], [Fin 2, Fin 1, Fin 7]] = Inr sol \<and>
      list_all (list_all is_Fin) sol"
    using t [THEN conjunct2, THEN conjunct1, rule_format, OF w] by (rule conjunct2)
  have p3: "\<exists>r0 r1. solve_quadratic [[Fin 0, Fin 1, Fin 5]] = Inr [[r0, r1]] \<and>
      \<not> is_Fin r0 \<and> \<not> is_Fin r1"
    using t [THEN conjunct2, THEN conjunct2, rule_format, OF b, of 5] by (elim conjE)
  have p1': "inv_2a_of [Fin 4, Fin 0] ! 1 = PInf"
    unfolding p1 by simp
  from w p1' p2 p3 show ?thesis by (intro conjI)
qed

subsection \<open>solve_cubic\<close>

lemma map2_same: "map2 g (map f xs) (map f' xs) = map (\<lambda>x. g (f x) (f' x)) xs"
  by (induction xs) simp_all

lemma select_map2_same:
  "map2 g (select m (map f xs)) (select m (map f' xs)) = select m (map (\<lambda>x. g (f x) (f' x)) xs)"
  by (simp only: select_map2 map2_same)

lemma select_map_same:
  "map g (select m (map f xs)) = select m (map (\<lambda>x. g (f x)) xs)"
  by (simp add: select_map comp_def)

lemma normal_form_rows:
  "cubic_normal_form (map (\<lambda>r. r ! 0) xs) (map (\<lambda>r. r ! 1) xs) (map (\<lambda>r. r ! 2) xs)
       (map (\<lambda>r. r ! 3) xs) =
     (select (map (\<lambda>r. \<not> feq (r ! 0) 0) xs) (map row_Q xs),
      select (map (\<lambda>r. \<not> feq (r ! 0) 0) xs) (map row_R xs),
      select (map (\<lambda>r. \<not> feq (r ! 0) 0) xs) (map row_Q3 xs),
      select (map (\<lambda>r. \<not> feq (r ! 0) 0) xs) (map row_D xs),
      select (map (\<lambda>r. \<not> feq (r ! 0) 0) xs) (map row_b3 xs))"
  unfolding cubic_normal_form_def Let_def vmul_def vsub_def vadd_def smul_def vdivs_def sdiv_def
    mnot_def
  by (simp only: map_map comp_def select_map_same select_map2_same
      row_ba_def [abs_def] row_Q_def [abs_def] row_R_def [abs_def] row_Q3_def [abs_def]
      row_D_def [abs_def] row_b3_def [abs_def])

lemma select_map_pred: "select (map N xs) (map f xs) = map f (select (map N xs) xs)"
  by (induction xs) simp_all

lemma select_compressed:
  "select (map P (select (map N xs) xs)) (map W (select (map N xs) xs)) =
     select (map (\<lambda>x. N x \<and> P x) xs) (map W xs)"
  by (induction xs) simp_all

lemma any_Cons [simp]: "any (m # ms) \<longleftrightarrow> m \<or> any ms"
  by (auto simp: any_def)

lemma any_Nil [simp]: "\<not> any []"
  by (simp add: any_def)

lemma any_compressed:
  "any (map P (select (map N xs) xs)) \<longleftrightarrow> any (map (\<lambda>x. N x \<and> P x) xs)"
  by (induction xs) simp_all

lemma scatter_with_rows:
  "scatter_with u (map P xs) (map S xs) (select (map P xs) (map W xs)) =
     map (\<lambda>x. if P x then u (W x) (S x) else S x) xs"
  by (induction xs) simp_all

lemma not_any_rows: "\<not> any (map P xs) \<Longrightarrow> map (\<lambda>x. if P x then f x else S x) xs = map S xs"
  by (induction xs) simp_all

lemma masked_assign_rows:
  "(if any (map P xs) then scatter_with u (map P xs) (map S xs) (select (map P xs) (map W xs))
    else map S xs) =
     map (\<lambda>x. if P x then u (W x) (S x) else S x) xs"
  by (simp add: scatter_with_rows not_any_rows)

lemma scatter_compressed:
  "scatter (map N xs) (map c xs) (map Q (select (map N xs) xs)) =
     map (\<lambda>x. if N x then Q x else c x) xs"
  unfolding scatter_def select_map_pred [symmetric] by (rule scatter_with_rows)

lemma set_select: "set (select ms xs) \<subseteq> set xs"
  unfolding select_def by (auto dest: set_zip_rightD)

lemma guarded_rows:
  "(if any (map P xs) then map (\<lambda>x. if P x then f x else S x) xs else map S xs) =
     map (\<lambda>x. if P x then f x else S x) xs"
  by (simp add: not_any_rows)

lemma low_order_rows:
  assumes "list_all (\<lambda>r. length r = 4) xs"
  shows "cubic_low_order xs (map (\<lambda>r. r ! 0) xs) (map (\<lambda>r. r ! 1) xs) (map (\<lambda>r. r ! 2) xs)
           (replicate (length xs) [0, 0, 0]) = Inr (map low_row xs)"
proof -
  define P2 where "P2 = (\<lambda>r :: fl list. (feq (r ! 0) 0 \<and> \<not> feq (r ! 1) 0) \<and> \<not> feq (r ! 2) 0)"
  define P1 where "P1 = (\<lambda>r :: fl list. (feq (r ! 0) 0 \<and> feq (r ! 1) 0) \<and> \<not> feq (r ! 2) 0)"
  define P0 where "P0 = (\<lambda>r :: fl list. (feq (r ! 0) 0 \<and> feq (r ! 1) 0) \<and> feq (r ! 2) 0)"
  have m2: "mand (mand (map (\<lambda>x. feq x 0) (map (\<lambda>r. r ! 0) xs))
                       (mnot (map (\<lambda>x. feq x 0) (map (\<lambda>r. r ! 1) xs))))
                 (mnot (map (\<lambda>x. feq x 0) (map (\<lambda>r. r ! 2) xs))) = map P2 xs"
    and m1: "mand (mand (map (\<lambda>x. feq x 0) (map (\<lambda>r. r ! 0) xs))
                       (map (\<lambda>x. feq x 0) (map (\<lambda>r. r ! 1) xs)))
                 (mnot (map (\<lambda>x. feq x 0) (map (\<lambda>r. r ! 2) xs))) = map P1 xs"
    and m0: "mand (mand (map (\<lambda>x. feq x 0) (map (\<lambda>r. r ! 0) xs))
                       (map (\<lambda>x. feq x 0) (map (\<lambda>r. r ! 1) xs)))
                 (map (\<lambda>x. feq x 0) (map (\<lambda>r. r ! 2) xs)) = map P0 xs"
    unfolding mand_def mnot_def P2_def P1_def P0_def
    by (simp_all only: map_map comp_def map2_same)
  have z: "replicate (length xs) [0 :: fl, 0, 0] = map (\<lambda>_. [0, 0, 0]) xs"
    by (simp add: map_replicate_const)
  have "list_all (\<lambda>r. 3 \<le> length r) (map (drop 1) (select (map P2 xs) xs))"
    using assms set_select [of "map P2 xs" xs] by (auto simp: list_all_iff)
  then have q: "solve_quadratic (map (drop 1) (select (map P2 xs) xs)) =
      Inr (select (map P2 xs) (map (\<lambda>r. quad_row (drop 1 r)) xs))"
    by (simp add: solve_quadratic_rows select_map_pred comp_def)
  define S2 where "S2 = (\<lambda>r. if P2 r then quad_row (drop 1 r) @ drop 2 [0, 0, 0] else [0 :: fl, 0, 0])"
  define S1 where "S1 = (\<lambda>r. if P1 r then (S2 r)[0 := 1] else S2 r)"
  define S0 where "S0 = (\<lambda>r. if P0 r then (S1 r)[0 := 0] else S1 r)"
  have s2: "(if any (map P2 xs)
             then bnd (solve_quadratic (map (drop 1) (select (map P2 xs) xs)))
                    (\<lambda>q. Inr (scatter_slice2 (map P2 xs) (map (\<lambda>_. [0, 0, 0]) xs) q))
             else Inr (map (\<lambda>_. [0, 0, 0]) xs)) = Inr (map S2 xs)"
    unfolding q bnd_Inr scatter_slice2_def S2_def
    by (simp add: scatter_with_rows not_any_rows)
  have s1: "(if any (map P1 xs) then fill_col (map P1 xs) 0 (map S2 xs) 1 else map S2 xs) = map S1 xs"
    unfolding fill_col_def map2_same S1_def by (rule guarded_rows)
  have s0: "(if any (map P0 xs) then fill_col (map P0 xs) 0 (map S1 xs) 0 else map S1 xs) = map S0 xs"
    unfolding fill_col_def map2_same S0_def by (rule guarded_rows)
  have "S0 = low_row"
    by (rule ext) (simp add: S0_def S1_def S2_def P0_def P1_def P2_def low_row_def Let_def)
  then show ?thesis
    unfolding cubic_low_order_def Let_def m2 m1 m0 z s2 bnd_Inr s1 s0 by simp
qed

lemma AD_BD_rows:
  "cubic_AD_BD (map row_Q ys) (map row_R ys) (map row_D ys) = (map row_AD ys, map row_BD ys)"
proof -
  define PR where "PR = (\<lambda>r. Fin (1 / 10 ^ 16) < abs (row_R r))"
  define PN where "PN = (\<lambda>r. row_R r < 0)"
  have mR: "map (\<lambda>x. Fin (1 / 10 ^ 16) < x) (map abs (map row_R ys)) = map PR ys"
    and mN: "map (\<lambda>x. x < 0) (map row_R ys) = map PN ys"
    and z: "map (\<lambda>_. 0 :: fl) (map row_R ys) = map (\<lambda>_. 0) ys"
    by (simp_all add: PR_def PN_def comp_def)
  have v1: "map pow_third (vadd (select (map PR ys) (map abs (map row_R ys)))
                                (map fsqrt (select (map PR ys) (map row_D ys)))) =
      select (map PR ys) (map (\<lambda>r. pow_third (abs (row_R r) + fsqrt (row_D r))) ys)"
    unfolding vadd_def
    by (simp only: map_map comp_def select_map_same select_map2_same)
  have a0: "scatter (map PR ys) (map (\<lambda>_. 0) ys)
      (select (map PR ys) (map (\<lambda>r. pow_third (abs (row_R r) + fsqrt (row_D r))) ys)) =
      map row_A0 ys"
    unfolding scatter_def scatter_with_rows by (simp add: row_A0_def PR_def)
  have v2: "vneg (select (map PN ys) (map row_A0 ys)) =
      select (map PN ys) (map (\<lambda>r. - row_A0 r) ys)"
    unfolding vneg_def by (simp only: select_map_same)
  have ad: "(if any (map PN ys)
             then scatter (map PN ys) (map row_A0 ys) (select (map PN ys) (map (\<lambda>r. - row_A0 r) ys))
             else map row_A0 ys) = map row_AD ys"
    unfolding scatter_def masked_assign_rows by (simp add: row_AD_def PN_def)
  have v3: "vdiv (vneg (select (map PR ys) (map row_Q ys))) (select (map PR ys) (map row_AD ys)) =
      select (map PR ys) (map (\<lambda>r. - row_Q r / row_AD r) ys)"
    unfolding vdiv_def vneg_def
    by (simp only: map_map comp_def select_map_same select_map2_same)
  have bd: "scatter (map PR ys) (map (\<lambda>_. 0) ys)
      (select (map PR ys) (map (\<lambda>r. - row_Q r / row_AD r) ys)) = map row_BD ys"
    unfolding scatter_def scatter_with_rows by (simp add: row_BD_def PR_def)
  have none: "map row_AD ys = map (\<lambda>_. 0) ys \<and> map row_BD ys = map (\<lambda>_. 0) ys"
    if "\<not> any (map PR ys)"
  proof -
    have "\<not> PR r" if "r \<in> set ys" for r
      using \<open>\<not> any (map PR ys)\<close> that by (auto simp: any_def)
    then show ?thesis
      by (simp add: row_AD_def row_A0_def row_BD_def PR_def zero_fl_def)
  qed
  show ?thesis
    unfolding cubic_AD_BD_def Let_def mR mN z v1 a0 v2 ad v3 bd
    using none by auto
qed

lemma select_zip3_rows:
  "map k (zip (select (map P ys) (map f ys))
              (zip (select (map P ys) (map g ys)) (select (map P ys) (map h ys)))) =
     select (map P ys) (map (\<lambda>y. k (f y, g y, h y)) ys)"
  by (induction ys) simp_all

lemma solve_cubic_rows:
  assumes "list_all (\<lambda>r. length r = 4) xs"
  shows "solve_cubic xs = Inr (map cubic_row xs)"
proof -
  define N where "N = (\<lambda>r :: fl list. \<not> feq (r ! 0) 0)"
  define ys where "ys = select (map N xs) xs"
  define PQ where "PQ = (\<lambda>r. feq (row_Q r) 0 \<and> \<not> feq (row_R r) 0)"
  define PQR where "PQR = (\<lambda>r. feq (row_Q r) 0 \<and> feq (row_R r) 0)"
  define PDz where "PDz = (\<lambda>r. row_D r \<le> 0 \<and> \<not> feq (row_Q r) 0)"
  define PDp where "PDp = (\<lambda>r. 0 < row_D r \<and> \<not> feq (row_Q r) 0)"
  have col: "column xs 0 = Inr (map (\<lambda>r. r ! 0) xs)" "column xs 1 = Inr (map (\<lambda>r. r ! 1) xs)"
    "column xs 2 = Inr (map (\<lambda>r. r ! 2) xs)" "column xs 3 = Inr (map (\<lambda>r. r ! 3) xs)"
    using assms by (force simp: column_def list_all_iff)+
  have nz: "mnot (map (\<lambda>x. feq x 0) (map (\<lambda>r. r ! 0) xs)) = map N xs"
    by (simp add: mnot_def N_def comp_def)
  have nf: "cubic_normal_form (map (\<lambda>r. r ! 0) xs) (map (\<lambda>r. r ! 1) xs) (map (\<lambda>r. r ! 2) xs)
       (map (\<lambda>r. r ! 3) xs) =
      (map row_Q ys, map row_R ys, map row_Q3 ys, map row_D ys, map row_b3 ys)"
    unfolding normal_form_rows ys_def N_def by (simp only: select_map_pred)
  have ones: "map (\<lambda>_. 1 :: fl) (map (\<lambda>r. r ! 0) xs) = map (\<lambda>_. 1) xs"
    and zeros: "map (\<lambda>_. 0 :: fl) (map (\<lambda>r. r ! 0) xs) = map (\<lambda>_. 0) xs"
    by simp_all
  have aQ: "scatter (map N xs) (map (\<lambda>_. 1) xs) (map row_Q ys) =
      map (\<lambda>r. if N r then row_Q r else 1) xs"
    and aR: "scatter (map N xs) (map (\<lambda>_. 1) xs) (map row_R ys) =
      map (\<lambda>r. if N r then row_R r else 1) xs"
    and aD: "scatter (map N xs) (map (\<lambda>_. 1) xs) (map row_D ys) =
      map (\<lambda>r. if N r then row_D r else 1) xs"
    and aDp: "scatter (map N xs) (map (\<lambda>_. 0) xs) (map row_D ys) =
      map (\<lambda>r. if N r then row_D r else 0) xs"
    unfolding ys_def by (rule scatter_compressed)+
  have cm1: "mand (map (\<lambda>x. feq x 0) (map row_Q ys)) (map (\<lambda>x. \<not> feq x 0) (map row_R ys)) =
      map PQ ys"
    and cm2: "mand (map (\<lambda>x. feq x 0) (map row_Q ys)) (map (\<lambda>x. feq x 0) (map row_R ys)) =
      map PQR ys"
    and cm3: "mand (map (\<lambda>x. x \<le> 0) (map row_D ys)) (map (\<lambda>x. \<not> feq x 0) (map row_Q ys)) =
      map PDz ys"
    and cm4: "mand (map (\<lambda>x. 0 < x) (map row_D ys)) (map (\<lambda>x. \<not> feq x 0) (map row_Q ys)) =
      map PDp ys"
    unfolding mand_def PQ_def PQR_def PDz_def PDp_def
    by (simp_all only: map_map comp_def map2_same)
  have fm1: "mand (map (\<lambda>x. feq x 0) (map (\<lambda>r. if N r then row_Q r else 1) xs))
                  (map (\<lambda>x. \<not> feq x 0) (map (\<lambda>r. if N r then row_R r else 1) xs)) =
      map (\<lambda>r. N r \<and> PQ r) xs"
    and fm2: "mand (map (\<lambda>x. feq x 0) (map (\<lambda>r. if N r then row_Q r else 1) xs))
                  (map (\<lambda>x. feq x 0) (map (\<lambda>r. if N r then row_R r else 1) xs)) =
      map (\<lambda>r. N r \<and> PQR r) xs"
    and fm3: "mand (map (\<lambda>x. x \<le> 0) (map (\<lambda>r. if N r then row_D r else 1) xs))
                  (map (\<lambda>x. \<not> feq x 0) (map (\<lambda>r. if N r then row_Q r else 1) xs)) =
      map (\<lambda>r. N r \<and> PDz r) xs"
    and fm4: "mand (map (\<lambda>x. 0 < x) (map (\<lambda>r. if N r then row_D r else 0) xs))
                  (map (\<lambda>x. \<not> feq x 0) (map (\<lambda>r. if N r then row_Q r else 1) xs)) =
      map (\<lambda>r. N r \<and> PDp r) xs"
    unfolding mand_def PQ_def PQR_def PDz_def PDp_def
    by (simp_all add: map2_same comp_def zero_fl_def one_fl_def)
  have any1: "any (map PQ ys) = any (map (\<lambda>r. N r \<and> PQ r) xs)"
    and any2: "any (map PQR ys) = any (map (\<lambda>r. N r \<and> PQR r) xs)"
    and any3: "any (map PDz ys) = any (map (\<lambda>r. N r \<and> PDz r) xs)"
    and any4: "any (map PDp ys) = any (map (\<lambda>r. N r \<and> PDp r) xs)"
    unfolding ys_def by (rule any_compressed)+
  have v1: "vsub (map pow_third (smul (Fin 2) (select (map PQ ys) (map row_R ys))))
                 (select (map PQ ys) (map row_b3 ys)) =
      select (map (\<lambda>r. N r \<and> PQ r) xs)
        (map (\<lambda>r. pow_third (Fin 2 * row_R r) - row_b3 r) xs)"
    unfolding vsub_def smul_def ys_def select_compressed [symmetric]
    by (simp only: map_map comp_def select_map_same select_map2_same)
  have v2: "map (\<lambda>x. [x, x, x]) (vneg (select (map PQR ys) (map row_b3 ys))) =
      select (map (\<lambda>r. N r \<and> PQR r) xs)
        (map (\<lambda>r. [- row_b3 r, - row_b3 r, - row_b3 r]) xs)"
    unfolding vneg_def ys_def select_compressed [symmetric]
    by (simp only: map_map comp_def select_map_same select_map2_same)
  have th: "map facos (vdiv (select (map PDz ys) (map row_R ys))
                            (map fsqrt (vneg (select (map PDz ys) (map row_Q3 ys))))) =
      select (map PDz ys) (map row_theta ys)"
    unfolding vdiv_def vneg_def
    by (simp only: map_map comp_def select_map_same select_map2_same row_theta_def [abs_def])
  have sq: "map fsqrt (vneg (select (map PDz ys) (map row_Q ys))) =
      select (map PDz ys) (map (\<lambda>r. fsqrt (- row_Q r)) ys)"
    unfolding vneg_def by (simp only: map_map comp_def select_map_same)
  have x0: "vsub (vmul (smul (Fin 2) (select (map PDz ys) (map (\<lambda>r. fsqrt (- row_Q r)) ys)))
                       (map fcos (vdivs (select (map PDz ys) (map row_theta ys)) (Fin 3))))
                 (select (map PDz ys) (map row_b3 ys)) =
      select (map PDz ys) (map row_x0 ys)"
    and x1: "vsub (vmul (smul (Fin 2) (select (map PDz ys) (map (\<lambda>r. fsqrt (- row_Q r)) ys)))
                       (map fcos (vdivs (map (\<lambda>t. t + Fin 2 * Fin pi)
                          (select (map PDz ys) (map row_theta ys))) (Fin 3))))
                 (select (map PDz ys) (map row_b3 ys)) =
      select (map PDz ys) (map row_x1 ys)"
    and x2: "vsub (vmul (smul (Fin 2) (select (map PDz ys) (map (\<lambda>r. fsqrt (- row_Q r)) ys)))
                       (map fcos (vdivs (map (\<lambda>t. t + Fin 4 * Fin pi)
                          (select (map PDz ys) (map row_theta ys))) (Fin 3))))
                 (select (map PDz ys) (map row_b3 ys)) =
      select (map PDz ys) (map row_x2 ys)"
    unfolding vsub_def vmul_def smul_def vdivs_def
    by (simp_all only: map_map comp_def select_map_same select_map2_same
        row_x0_def [abs_def] row_x1_def [abs_def] row_x2_def [abs_def])
  have v3: "map (\<lambda>(x0, x1, x2). [x0, x1, x2])
        (zip (select (map PDz ys) (map row_x0 ys))
             (zip (select (map PDz ys) (map row_x1 ys)) (select (map PDz ys) (map row_x2 ys)))) =
      select (map (\<lambda>r. N r \<and> PDz r) xs) (map (\<lambda>r. [row_x0 r, row_x1 r, row_x2 r]) xs)"
    unfolding select_zip3_rows ys_def select_compressed [symmetric] by simp
  have v4: "vsub (vadd (select (map PDp ys) (map row_AD ys)) (select (map PDp ys) (map row_BD ys)))
                 (select (map PDp ys) (map row_b3 ys)) =
      select (map (\<lambda>r. N r \<and> PDp r) xs) (map (\<lambda>r. row_AD r + row_BD r - row_b3 r) xs)"
    unfolding vsub_def vadd_def ys_def select_compressed [symmetric]
    by (simp only: map_map comp_def select_map_same select_map2_same)
  define S1 where "S1 = (\<lambda>r. if N r \<and> PQ r
      then (low_row r)[0 := pow_third (Fin 2 * row_R r) - row_b3 r] else low_row r)"
  define S2 where "S2 = (\<lambda>r. if N r \<and> PQR r
      then [- row_b3 r, - row_b3 r, - row_b3 r] else S1 r)"
  define S3 where "S3 = (\<lambda>r. if N r \<and> PDz r then [row_x0 r, row_x1 r, row_x2 r] else S2 r)"
  define S4 where "S4 = (\<lambda>r. if N r \<and> PDp r
      then (S3 r)[0 := row_AD r + row_BD r - row_b3 r] else S3 r)"
  have s1: "(if any (map (\<lambda>r. N r \<and> PQ r) xs)
             then scatter_col (map (\<lambda>r. N r \<and> PQ r) xs) 0 (map low_row xs)
                    (select (map (\<lambda>r. N r \<and> PQ r) xs)
                       (map (\<lambda>r. pow_third (Fin 2 * row_R r) - row_b3 r) xs))
             else map low_row xs) = map S1 xs"
    unfolding scatter_col_def masked_assign_rows S1_def ..
  have s2: "(if any (map (\<lambda>r. N r \<and> PQR r) xs)
             then scatter (map (\<lambda>r. N r \<and> PQR r) xs) (map S1 xs)
                    (select (map (\<lambda>r. N r \<and> PQR r) xs)
                       (map (\<lambda>r. [- row_b3 r, - row_b3 r, - row_b3 r]) xs))
             else map S1 xs) = map S2 xs"
    unfolding scatter_def masked_assign_rows S2_def ..
  have s3: "(if any (map (\<lambda>r. N r \<and> PDz r) xs)
             then scatter (map (\<lambda>r. N r \<and> PDz r) xs) (map S2 xs)
                    (select (map (\<lambda>r. N r \<and> PDz r) xs)
                       (map (\<lambda>r. [row_x0 r, row_x1 r, row_x2 r]) xs))
             else map S2 xs) = map S3 xs"
    unfolding scatter_def masked_assign_rows S3_def ..
  have s4: "(if any (map (\<lambda>r. N r \<and> PDp r) xs)
             then scatter_col (map (\<lambda>r. N r \<and> PDp r) xs) 0 (map S3 xs)
                    (select (map (\<lambda>r. N r \<and> PDp r) xs)
                       (map (\<lambda>r. row_AD r + row_BD r - row_b3 r) xs))
             else map S3 xs) = map S4 xs"
    unfolding scatter_col_def masked_assign_rows S4_def ..
  have fin: "S4 = cubic_row"
    by (rule ext)
       (simp add: S4_def S3_def S2_def S1_def cubic_row_def Let_def N_def PQ_def PQR_def PDz_def
          PDp_def)
  show ?thesis
    unfolding solve_cubic_def col bnd_Inr low_order_rows [OF assms] Let_def nz nf prod.case
      ones zeros aQ aR aD aDp cm1 cm2 cm3 cm4 fm1 fm2 fm3 fm4 any1 any2 any3 any4
      v1 s1 v2 s2 th sq x0 x1 x2 v3 s3 AD_BD_rows v4 s4 fin ..
qed

lemma solve_cubic_nth:
  assumes "list_all (\<lambda>r. length r = 4) xs" and "i < length xs"
  shows "\<exists>sol. solve_cubic xs = Inr sol \<and> length sol = length xs \<and> sol ! i = cubic_row (xs ! i)"
  using assms by (simp add: solve_cubic_rows)

lemma cubic_row_second_order:
  assumes "feq a 0" and "\<not> feq b 0"
  shows "cubic_row [a, b, c, d] = (if feq c 0 then [0, 0, 0] else quad_row [b, c, d] @ [0])"
  using assms by (simp add: cubic_row_def low_row_def Let_def)

lemma solve_cubic_second_order:
  assumes "list_all (\<lambda>r. length r = 4) xs" and "i < length xs" and "xs ! i = [a, b, c, d]"
    and "feq a 0" and "\<not> feq b 0"
  shows "\<exists>sol. solve_cubic xs = Inr sol \<and>
           sol ! i = (if feq c 0 then [0, 0, 0] else quad_row [b, c, d] @ [0])"
  using solve_cubic_nth [OF assms(1,2)] by (auto simp: assms(3) cubic_row_second_order [OF assms(4,5)])

lemma row_Q_R_Fin:
  assumes "a \<noteq> 0"
  shows "row_Q [Fin a, Fin b, Fin c, Fin d] = Fin (cubic_Q a b c)"
    and "row_R [Fin a, Fin b, Fin c, Fin d] = Fin (cubic_R a b c d)"
    and "row_b3 [Fin a, Fin b, Fin c, Fin d] = Fin (b / (3 * a))"
  using assms
  by (simp_all add: row_Q_def row_R_def row_b3_def row_ba_def cubic_Q_def cubic_R_def
      minus_fl_def)

lemma cubic_row_Q_zero:
  assumes "a \<noteq> 0" and "cubic_Q a b c = 0" and "cubic_R a b c d \<noteq> 0"
  shows "cubic_row [Fin a, Fin b, Fin c, Fin d] =
           (if 0 < cubic_R a b c d
            then [Fin (root 3 (2 * cubic_R a b c d) - b / (3 * a)), 0, 0]
            else [NaN, 0, 0])"
proof -
  have q: "row_Q [Fin a, Fin b, Fin c, Fin d] = Fin 0"
    and r: "row_R [Fin a, Fin b, Fin c, Fin d] = Fin (cubic_R a b c d)"
    and b3: "row_b3 [Fin a, Fin b, Fin c, Fin d] = Fin (b / (3 * a))"
    using row_Q_R_Fin [OF assms(1), of b c d] assms(2) by simp_all
  have low: "low_row [Fin a, Fin b, Fin c, Fin d] = [0, 0, 0]"
    using assms(1) by (simp add: low_row_def zero_fl_def)
  show ?thesis
    using assms(1,3)
    by (simp add: cubic_row_def Let_def low q r b3 zero_fl_def minus_fl_def not_less)
qed

lemma solve_cubic_Q_zero:
  assumes "list_all (\<lambda>r. length r = 4) xs" and "i < length xs"
    and "xs ! i = [Fin a, Fin b, Fin c, Fin d]"
    and "a \<noteq> 0" and "cubic_Q a b c = 0" and "cubic_R a b c d \<noteq> 0"
  shows "\<exists>sol. solve_cubic xs = Inr sol \<and>
           sol ! i = (if 0 < cubic_R a b c d
                      then [Fin (root 3 (2 * cubic_R a b c d) - b / (3 * a)), 0, 0]
                      else [NaN, 0, 0])"
  using solve_cubic_nth [OF assms(1,2)]
  by (auto simp: assms(3) cubic_row_Q_zero [OF assms(4,5,6)])

lemmas cubic_eval_defs =
  solve_cubic_def column_def bnd_def cubic_low_order_def cubic_normal_form_def
  cubic_AD_BD_def mand_def mnot_def any_def scatter_def scatter_col_def scatter_slice2_def
  fill_col_def vadd_def vsub_def vmul_def vdiv_def vdivs_def smul_def sdiv_def vneg_def
  zero_fl_def one_fl_def minus_fl_def Let_def

text \<open>
  C2. A batch element with \<open>a = 0\<close>, \<open>b \<noteq> 0\<close> and \<open>c = 0\<close> is under none of the three
  low-order masks (\<open>mask_second_order\<close> asks for \<open>c \<noteq> 0\<close> too): on \<open>(0, 1, 0, - 1)\<close> all
  three root slots stay 0, while \<open>solve_quadratic\<close> on \<open>(1, 0, - 1)\<close> gives the roots 1 and
  \<open>- 1\<close>.
\<close>

theorem solve_cubic_second_order_c_zero:
  "solve_cubic [[Fin 0, Fin 1, Fin 0, Fin (- 1)]] = Inr [[Fin 0, Fin 0, Fin 0]] \<and>
   solve_quadratic [[Fin 1, Fin 0, Fin (- 1)]] = Inr [[Fin 1, Fin (- 1)]]"
proof
  show "solve_cubic [[Fin 0, Fin 1, Fin 0, Fin (- 1)]] = Inr [[Fin 0, Fin 0, Fin 0]]"
    by (simp add: cubic_eval_defs)
  show "solve_quadratic [[Fin 1, Fin 0, Fin (- 1)]] = Inr [[Fin 1, Fin (- 1)]]"
    by (simp add: solve_quadratic_rows quad_row_def zero_fl_def minus_fl_def)
qed

text \<open>
  C6. On \<open>(1, 0, 0, 1)\<close>, that is \<open>x^3 + 1 = 0\<close> with \<open>Q = 0\<close> and \<open>R = - 1/2\<close>, the first
  root slot holds a NaN, the power \<open>1/3\<close> of the negative number \<open>2 * R\<close>, and not the real
  root \<open>- 1\<close>.
\<close>

theorem solve_cubic_Q_zero_R_negative:
  "solve_cubic [[Fin 1, Fin 0, Fin 0, Fin 1]] = Inr [[NaN, Fin 0, Fin 0]]"
  by (simp add: cubic_eval_defs)

lemma solve_cubic_second_order_example:
  "solve_cubic [[Fin 0, Fin 1, Fin (- 3), Fin 2]] = Inr [[Fin 2, Fin 1, Fin 0]]"
  by (simp add: cubic_eval_defs solve_quadratic_rows quad_row_def)

lemma solve_cubic_Q_zero_R_positive_example:
  "solve_cubic [[Fin 1, Fin 0, Fin 0, Fin (- 8)]] = Inr [[Fin 2, Fin 0, Fin 0]]"
proof -
  have "root 3 8 = (2::real)"
    using real_root_pos2 [of 3 2] by simp
  then show ?thesis
    by (simp add: cubic_eval_defs)
qed

subsection \<open>normalize_transformation\<close>

lemma inj_Fin_rows: "inj (map (map Fin))"
  by (intro inj_mapI) (simp add: inj_def)

lemma map_map_Fin_eq [simp]: "map (map Fin) A = map (map Fin) B \<longleftrightarrow> A = B"
  using inj_Fin_rows by (auto dest: injD)

lemma normalize_mat_Fin:
  assumes "0 \<le> eps" and "M \<noteq> []" and "last M \<noteq> []"
  shows "normalize_mat (Fin eps) (map (map Fin) M) = map (map Fin) (normalize_real eps M)"
proof -
  define v where "v = last (last M)"
  have l: "last (last (map (map Fin) M)) = Fin v"
    using assms by (simp add: last_map v_def)
  have ne: "map (map Fin) M \<noteq> []" "last (map (map Fin) M) \<noteq> []"
    using assms by (simp_all add: last_map)
  show ?thesis
  proof (cases "eps < \<bar>v\<bar>")
    case True
    with assms(1) have nz: "v + eps \<noteq> 0" by auto
    have "normalize_mat (Fin eps) (map (map Fin) M) =
        map (map (\<lambda>m. m / (Fin v + Fin eps))) (map (map Fin) M)"
      using True ne by (simp add: normalize_mat_def l del: map_map)
    also have "\<dots> = map (map Fin) (map (map (\<lambda>m. m / (v + eps))) M)"
      using nz by simp
    finally show ?thesis
      using True by (simp add: normalize_real_def v_def)
  next
    case False
    then have "normalize_mat (Fin eps) (map (map Fin) M) = map (map Fin) M"
      using ne by (simp add: normalize_mat_def l del: map_map)
    then show ?thesis
      using False by (simp add: normalize_real_def v_def)
  qed
qed

lemma normalize_real_last:
  assumes "M \<noteq> []" and "last M \<noteq> []" and "eps < \<bar>last (last M)\<bar>"
  shows "last (last (normalize_real eps M)) = last (last M) / (last (last M) + eps)"
  using assms by (simp add: normalize_real_def Let_def last_map)

text \<open>
  C3, as stated, fails: with the default \<open>eps\<close>, the matrix with \<open>1e-7\<close> on the diagonal is
  normalized to the one with \<open>10/11\<close> on the diagonal, and a second application changes
  that again (it divides by \<open>10/11 + 1e-8\<close>).
\<close>

theorem normalize_transformation_not_idempotent:
  "normalize_transformation (T2 [[Fin (1 / 10 ^ 7), Fin 0], [Fin 0, Fin (1 / 10 ^ 7)]]) eps_default
     = Inr (T2 [[Fin (10 / 11), Fin 0], [Fin 0, Fin (10 / 11)]]) \<and>
   normalize_transformation (T2 [[Fin (10 / 11), Fin 0], [Fin 0, Fin (10 / 11)]]) eps_default
     \<noteq> Inr (T2 [[Fin (10 / 11), Fin 0], [Fin 0, Fin (10 / 11)]])"
  by (simp add: normalize_transformation_def normalize_mat_def eps_default_def)

text \<open>
  C3, amended. For \<open>eps \<ge> 0\<close> and a finite matrix \<open>M\<close> of size at least 2x2 with bottom-right
  entry \<open>v\<close>: when \<open>\<bar>v\<bar> \<le> eps\<close> the matrix is returned unchanged, so a second application
  returns it again; when \<open>\<bar>v\<bar> > eps\<close> every entry is divided by \<open>v + eps\<close>, which leaves
  \<open>v / (v + eps)\<close> in the bottom-right entry.
\<close>

theorem normalize_transformation_rescales:
  assumes "0 \<le> eps" and "2 \<le> length M" and "list_all (\<lambda>r. 2 \<le> length r) M"
  shows "\<exists>N. normalize_transformation (T2 (map (map Fin) M)) (Fin eps)
               = Inr (T2 (map (map Fin) N)) \<and>
           (\<bar>last (last M)\<bar> \<le> eps \<longrightarrow>
              N = M \<and>
              normalize_transformation (T2 (map (map Fin) N)) (Fin eps)
                = Inr (T2 (map (map Fin) N))) \<and>
           (eps < \<bar>last (last M)\<bar> \<longrightarrow>
              N = map (map (\<lambda>m. m / (last (last M) + eps))) M \<and>
              last (last N) = last (last M) / (last (last M) + eps))"
proof -
  have ne: "M \<noteq> []" using assms(2) by auto
  then have "last M \<in> set M" by simp
  with assms(3) have ne': "last M \<noteq> []" by (auto simp: list_all_iff)
  let ?N = "normalize_real eps M"
  have 1: "normalize_transformation (T2 (map (map Fin) M)) (Fin eps) = Inr (T2 (map (map Fin) ?N))"
    by (simp add: normalize_transformation_def normalize_mat_Fin [OF assms(1) ne ne'])
  have 2: "?N = M \<and>
      normalize_transformation (T2 (map (map Fin) ?N)) (Fin eps) = Inr (T2 (map (map Fin) ?N))"
    if "\<bar>last (last M)\<bar> \<le> eps"
  proof -
    from that have "?N = M" by (simp add: normalize_real_def)
    with 1 show ?thesis by simp
  qed
  have 3: "?N = map (map (\<lambda>m. m / (last (last M) + eps))) M \<and>
      last (last ?N) = last (last M) / (last (last M) + eps)"
    if "eps < \<bar>last (last M)\<bar>"
    using that normalize_real_last [OF ne ne' that] by (simp add: normalize_real_def)
  from 1 2 3 show ?thesis by blast
qed

theorem normalize_transformation_rescales_witness:
  "(0::real) \<le> 1 / 1024 \<and>
   (\<exists>N. normalize_transformation (T2 (map (map Fin) [[3, 1], [0, 1 / 2048]])) (Fin (1 / 1024))
          = Inr (T2 (map (map Fin) N)) \<and>
        N = [[3, 1], [0, 1 / 2048]] \<and>
        normalize_transformation (T2 (map (map Fin) N)) (Fin (1 / 1024))
          = Inr (T2 (map (map Fin) N))) \<and>
   (\<exists>N. normalize_transformation (T2 (map (map Fin) [[4, 2], [0, 2 - 1 / 1024]])) (Fin (1 / 1024))
          = Inr (T2 (map (map Fin) N)) \<and>
        N = [[2, 1], [0, 1 - 1 / 2048]] \<and> last (last N) = 1 - 1 / 2048)"
proof -
  have h1: "(0::real) \<le> 1 / 1024" by simp
  have h2: "2 \<le> length [[3, 1], [0, 1 / 2048 :: real]]"
    and h3: "list_all (\<lambda>r. 2 \<le> length r) [[3, 1], [0, 1 / 2048 :: real]]"
    by simp_all
  have g2: "2 \<le> length [[4, 2], [0, 2 - 1 / 1024 :: real]]"
    and g3: "list_all (\<lambda>r. 2 \<le> length r) [[4, 2], [0, 2 - 1 / 1024 :: real]]"
    by simp_all
  from normalize_transformation_rescales [OF h1 h2 h3]
  have a: "\<exists>N. normalize_transformation (T2 (map (map Fin) [[3, 1], [0, 1 / 2048]])) (Fin (1 / 1024))
          = Inr (T2 (map (map Fin) N)) \<and>
        N = [[3, 1], [0, 1 / 2048]] \<and>
        normalize_transformation (T2 (map (map Fin) N)) (Fin (1 / 1024))
          = Inr (T2 (map (map Fin) N))"
    by simp
  from normalize_transformation_rescales [OF h1 g2 g3]
  have b: "\<exists>N. normalize_transformation (T2 (map (map Fin) [[4, 2], [0, 2 - 1 / 1024]])) (Fin (1 / 1024))
          = Inr (T2 (map (map Fin) N)) \<and>
        N = [[2, 1], [0, 1 - 1 / 2048]] \<and> last (last N) = 1 - 1 / 2048"
    by simp
  from h1 a b show ?thesis by (intro conjI)
qed

subsection \<open>normalize_points\<close>

lemma fsum_Fin: "fsum (map (\<lambda>x. Fin (f x)) xs) = Fin (sum_list (map f xs))"
  by (induction xs) (simp_all add: fsum_def zero_fl_def)

lemma fmean_Fin:
  "xs \<noteq> [] \<Longrightarrow> fmean (map (\<lambda>x. Fin (f x)) xs) = Fin (sum_list (map f xs) / real (length xs))"
  by (simp add: fmean_def fsum_Fin)

lemma mean_distance_nonneg: "0 \<le> mean_distance ps"
  unfolding mean_distance_def
  by (intro divide_nonneg_nonneg sum_list_nonneg) auto

lemma points_transform_Fin:
  assumes "ps \<noteq> []" and "0 < eps"
  shows "points_transform (Fin eps) (enc_points ps) = transform_real eps ps"
proof -
  have c0: "map (\<lambda>p. p ! 0) (enc_points ps) = map (\<lambda>p. Fin (fst p)) ps"
    and c1: "map (\<lambda>p. p ! 1) (enc_points ps) = map (\<lambda>p. Fin (snd p)) ps"
    by (simp_all add: enc_points_def)
  have m0: "fmean (map (\<lambda>p. p ! 0) (enc_points ps)) = Fin (fst (centroid ps))"
    and m1: "fmean (map (\<lambda>p. p ! 1) (enc_points ps)) = Fin (snd (centroid ps))"
    unfolding c0 c1 using assms(1) by (simp_all add: fmean_Fin centroid_def)
  define cx where "cx = fst (centroid ps)"
  define cy where "cy = snd (centroid ps)"
  have n: "norm2 (vsub [Fin x, Fin y] [Fin cx, Fin cy]) =
      Fin (sqrt ((x - cx) * (x - cx) + (y - cy) * (y - cy)))" for x y
    by (simp add: norm2_def vsub_def fsum_def minus_fl_def zero_fl_def not_less)
  have "map (\<lambda>p. norm2 (vsub p [Fin cx, Fin cy])) (enc_points ps) =
      map (\<lambda>p. Fin (sqrt ((fst p - cx) * (fst p - cx) + (snd p - cy) * (snd p - cy)))) ps"
    by (simp add: enc_points_def n)
  then have d: "fmean (map (\<lambda>p. norm2 (vsub p [Fin cx, Fin cy])) (enc_points ps)) =
      Fin (mean_distance ps)"
    using assms(1) by (simp add: fmean_Fin mean_distance_def cx_def cy_def)
  have pos: "mean_distance ps + eps \<noteq> 0"
    using mean_distance_nonneg [of ps] assms(2) by linarith
  have s: "fsqrt (Fin 2) / (Fin (mean_distance ps) + Fin eps) = Fin (scale_real eps ps)"
    using pos by (simp add: scale_real_def)
  show ?thesis
    unfolding points_transform_def m0 m1 Let_def
    using pos
    by (simp add: d [unfolded cx_def cy_def] transform_real_def zero_fl_def one_fl_def
        scale_real_def)
qed

lemma transform_point_real:
  "transform_point (transform_real eps ps) [Fin x, Fin y] =
     [Fin (dehom_real * (scale_real eps ps * (x - fst (centroid ps)))),
      Fin (dehom_real * (scale_real eps ps * (y - snd (centroid ps))))]"
proof -
  have q: "map (\<lambda>row. fsum (vmul row ([Fin x, Fin y] @ [1]))) (transform_real eps ps) =
      [Fin (scale_real eps ps * (x - fst (centroid ps))),
       Fin (scale_real eps ps * (y - snd (centroid ps))), Fin 1]"
    by (simp add: transform_real_def vmul_def fsum_def zero_fl_def one_fl_def algebra_simps)
  show ?thesis
    unfolding transform_point_def Let_def q
    by (simp add: eps_default_def dehom_real_def)
qed

lemma transform_points_real:
  "map (transform_point (transform_real eps ps)) (enc_points ps) =
     enc_points (normalized_real eps ps)"
  by (simp add: enc_points_def normalized_real_def transform_point_real)

lemma shape_points_tensor:
  assumes "P \<noteq> []" and "list_all (\<lambda>ps. ps \<noteq> []) P"
  shows "shape (points_tensor P) = [length P, length (hd P), 2]"
proof -
  from assms obtain ps P' where P: "P = ps # P'" by (cases P) auto
  with assms(2) obtain p ps' where ps: "ps = p # ps'" by (cases ps) auto
  show ?thesis by (simp add: P ps points_tensor_def enc_points_def)
qed

lemma normalize_points_real:
  assumes "0 < eps" and "P \<noteq> []" and "list_all (\<lambda>ps. ps \<noteq> []) P"
  shows "normalize_points (points_tensor P) (Fin eps) =
           Inr (map (\<lambda>ps. enc_points (normalized_real eps ps)) P, map (transform_real eps) P)"
proof -
  have t: "map (points_transform (Fin eps)) (map enc_points P) = map (transform_real eps) P"
    using assms by (simp add: list_all_iff points_transform_Fin)
  have "transform_points (map (transform_real eps) P) (map enc_points P) =
      map (\<lambda>ps. enc_points (normalized_real eps ps)) P"
    by (simp add: transform_points_def zip_map_map transform_points_real zip_same_conv_map)
  with t show ?thesis
    unfolding normalize_points_def shape_points_tensor [OF assms(2,3)]
    by (simp add: points_tensor_def Let_def del: map_map)
qed


lemma scale_real_pos: "0 < eps \<Longrightarrow> 0 < scale_real eps ps"
  using mean_distance_nonneg [of ps] by (simp add: scale_real_def add_nonneg_pos)











lemma points_transform_form:
  "\<exists>s tx ty. points_transform eps pts = [[s, 0, tx], [0, s, ty], [0, 0, 1]]"
  by (simp add: points_transform_def Let_def)

text \<open>
  C10. Every transform returned by \<open>normalize_points\<close> has the bottom row \<open>(0, 0, 1)\<close>, the
  same value in its two diagonal scale entries and 0 in the two off-diagonal entries of the
  upper-left block; on finite points with \<open>B, N \<ge> 1\<close> and \<open>eps > 0\<close> the scale is a positive
  finite number and the translation is finite.
\<close>

theorem normalize_points_transform_similarity:
  "(\<forall>points eps pn tr b.
      normalize_points points eps = Inr (pn, tr) \<and> b < length tr \<longrightarrow>
      (\<exists>s tx ty. tr ! b = [[s, 0, tx], [0, s, ty], [0, 0, 1]])) \<and>
   (\<forall>eps P.
      0 < eps \<and> P \<noteq> [] \<and> list_all (\<lambda>ps. ps \<noteq> []) P \<longrightarrow>
      (\<exists>pn tr. normalize_points (points_tensor P) (Fin eps) = Inr (pn, tr) \<and>
         length tr = length P \<and>
         (\<forall>b < length P. \<exists>s tx ty. 0 < s \<and>
            tr ! b = [[Fin s, Fin 0, Fin tx], [Fin 0, Fin s, Fin ty], [Fin 0, Fin 0, Fin 1]])))"
proof (intro conjI allI impI)
  fix points eps pn tr b
  assume h: "normalize_points points eps = Inr (pn, tr) \<and> b < length tr"
  then obtain ps where tr: "tr = map (points_transform eps) ps"
    by (auto simp: normalize_points_def Let_def split: if_splits tensor.splits)
  with h have "tr ! b = points_transform eps (ps ! b)" by simp
  with points_transform_form [of eps "ps ! b"]
  show "\<exists>s tx ty. tr ! b = [[s, 0, tx], [0, s, ty], [0, 0, 1]]" by simp
next
  fix eps :: real and P :: "(real \<times> real) list list"
  assume h: "0 < eps \<and> P \<noteq> [] \<and> list_all (\<lambda>ps. ps \<noteq> []) P"
  then have e: "0 < eps" and P: "P \<noteq> []" "list_all (\<lambda>ps. ps \<noteq> []) P"
    by simp_all
  have "\<exists>s tx ty. 0 < s \<and> map (transform_real eps) P ! b =
      [[Fin s, Fin 0, Fin tx], [Fin 0, Fin s, Fin ty], [Fin 0, Fin 0, Fin 1]]"
    if "b < length P" for b
    using that scale_real_pos [OF e, of "P ! b"] by (simp add: transform_real_def)
  with normalize_points_real [OF e P]
  show "\<exists>pn tr. normalize_points (points_tensor P) (Fin eps) = Inr (pn, tr) \<and>
         length tr = length P \<and>
         (\<forall>b < length P. \<exists>s tx ty. 0 < s \<and>
            tr ! b = [[Fin s, Fin 0, Fin tx], [Fin 0, Fin s, Fin ty], [Fin 0, Fin 0, Fin 1]])"
    by (intro exI [of _ "map (\<lambda>ps. enc_points (normalized_real eps ps)) P"]
              exI [of _ "map (transform_real eps) P"]) simp
qed

theorem normalize_points_transform_similarity_witness:
  "(0::real) < 1 / 10 ^ 8 \<and> [[(0 :: real, 0 :: real), (2, 0)]] \<noteq> [] \<and>
   list_all (\<lambda>ps. ps \<noteq> []) [[(0 :: real, 0 :: real), (2, 0)]] \<and>
   (\<exists>pn tr. normalize_points (points_tensor [[(0, 0), (2, 0)]]) (Fin (1 / 10 ^ 8)) = Inr (pn, tr) \<and>
      length tr = 1 \<and>
      (\<exists>s tx ty. 0 < s \<and>
         tr ! 0 = [[Fin s, Fin 0, Fin tx], [Fin 0, Fin s, Fin ty], [Fin 0, Fin 0, Fin 1]]))"
proof -
  have h: "(0::real) < 1 / 10 ^ 8 \<and> [[(0 :: real, 0 :: real), (2, 0)]] \<noteq> [] \<and>
      list_all (\<lambda>ps. ps \<noteq> []) [[(0 :: real, 0 :: real), (2, 0)]]"
    by simp
  from normalize_points_transform_similarity [THEN conjunct2, rule_format, OF h]
  obtain pn tr where
    a: "normalize_points (points_tensor [[(0, 0), (2, 0)]]) (Fin (1 / 10 ^ 8)) = Inr (pn, tr)"
    and l: "length tr = length [[(0 :: real, 0 :: real), (2, 0)]]"
    and b: "\<forall>b < length [[(0 :: real, 0 :: real), (2, 0)]]. \<exists>s tx ty. 0 < s \<and>
            tr ! b = [[Fin s, Fin 0, Fin tx], [Fin 0, Fin s, Fin ty], [Fin 0, Fin 0, Fin 1]]"
    by blast
  from b have "\<exists>s tx ty. 0 < s \<and>
      tr ! 0 = [[Fin s, Fin 0, Fin tx], [Fin 0, Fin s, Fin ty], [Fin 0, Fin 0, Fin 1]]"
    by simp
  with a l h show ?thesis by auto
qed

subsection \<open>run_7point\<close>

lemma star_call_fails:
  "call1 solve_cubic_callee (map T0 (cubic_coeffs f1 f2)) = Inl TypeError"
  by (simp add: cubic_coeffs_def Let_def call1_def)

lemma run_7point_no_result: "run_7point svd points1 points2 \<noteq> Inr F"
  unfolding run_7point_def
  by (auto simp: bnd_eq_Inr star_call_fails split: if_splits)

lemma run_7point_reaches_call:
  assumes "check_shape_B72 points1 = Inr ()" and "check_shape_B72 points2 = Inr ()"
    and "normalize_points points1 eps_default = Inr (n1, t1)"
    and "normalize_points points2 eps_default = Inr (n2, t2)"
    and "length n1 = length n2"
    and "list_all (\<lambda>(ps1, ps2). length ps1 = length ps2) (zip n1 n2)"
    and "\<And>X. svd X = Inr (U, S, [V0])"
    and "list_all (\<lambda>r. length r = 9) V0" and "length V0 = 9"
  shows "run_7point svd points1 points2 = Inl TypeError"
proof -
  have c: "column V0 7 = Inr (map (\<lambda>r. r ! 7) V0)" "column V0 8 = Inr (map (\<lambda>r. r ! 8) V0)"
    using assms(8) by (simp_all add: column_def list_all_iff)
  show ?thesis
    unfolding run_7point_def
    using assms(5,6,9)
    by (simp add: assms(1-4,7) design_matrix_def index_def c star_call_fails)
qed

text \<open>
  C1. \<open>run_7point\<close> never returns a stack of matrices: the call \<^verbatim>\<open>solve_cubic(*coeffs)\<close>
  passes the four coefficients as four positional arguments to a function of one
  parameter. On seven correspondences of the right shape, with a decomposition that
  succeeds, the result is that TypeError.
\<close>

theorem run_7point_type_error:
  "(\<forall>svd points1 points2 F. run_7point svd points1 points2 \<noteq> Inr F) \<and>
   run_7point svd_stub pts7 pts7 = Inl TypeError"
proof (intro conjI allI)
  fix svd points1 points2 F
  show "run_7point svd points1 points2 \<noteq> Inr F"
    by (rule run_7point_no_result)
next
  have s: "check_shape_B72 pts7 = Inr ()"
    by (simp add: check_shape_B72_def pts7_def points_tensor_def enc_points_def)
  have e: "(0::real) < 1 / 10 ^ 8" by simp
  have n: "normalize_points pts7 eps_default =
      Inr (map (\<lambda>ps. enc_points (normalized_real (1 / 10 ^ 8) ps))
             [[(0, 0), (1, 0), (0, 1), (1, 1), (2, 0), (0, 2), (2, 1)]],
           map (transform_real (1 / 10 ^ 8))
             [[(0, 0), (1, 0), (0, 1), (1, 1), (2, 0), (0, 2), (2, 1)]])"
    unfolding pts7_def eps_default_def
    by (rule normalize_points_real [OF e]) simp_all
  show "run_7point svd_stub pts7 pts7 = Inl TypeError"
    by (rule run_7point_reaches_call
          [OF s s n n, where U = "[]" and S = "[]" and ?V0.0 = "replicate 9 (replicate 9 (Fin 0))"])
       (simp_all add: list_all_iff svd_stub_def)
qed

subsection \<open>find_fundamental\<close>

text \<open>
  C8. \<open>find_fundamental\<close> looks at the upper-cased selector only: \<open>7POINT\<close> routes to
  \<open>run_7point\<close>, \<open>8POINT\<close> routes to \<open>run_8point\<close> with the weights passed on, anything else
  is a ValueError, and two selectors with the same upper-casing are treated alike.
\<close>

theorem find_fundamental_dispatch:
  "(upper method = ''7POINT'' \<longrightarrow>
      find_fundamental svd points1 points2 weights method = run_7point svd points1 points2) \<and>
   (upper method = ''8POINT'' \<longrightarrow>
      find_fundamental svd points1 points2 weights method =
        run_8point svd points1 points2 weights) \<and>
   (upper method \<noteq> ''7POINT'' \<and> upper method \<noteq> ''8POINT'' \<longrightarrow>
      find_fundamental svd points1 points2 weights method = Inl ValueError) \<and>
   (upper method = upper method' \<longrightarrow>
      find_fundamental svd points1 points2 weights method =
        find_fundamental svd points1 points2 weights method')"
  by (simp add: find_fundamental_def)

theorem find_fundamental_dispatch_witness:
  "upper ''7point'' = ''7POINT'' \<and>
   find_fundamental svd_stub pts7 pts7 None ''7point'' = run_7point svd_stub pts7 pts7 \<and>
   upper ''8Point'' = ''8POINT'' \<and>
   find_fundamental svd_stub pts7 pts7 None ''8Point'' =
     run_8point svd_stub pts7 pts7 None \<and>
   upper ''ransac'' \<noteq> ''7POINT'' \<and> upper ''ransac'' \<noteq> ''8POINT'' \<and>
   find_fundamental svd_stub pts7 pts7 None ''ransac'' = Inl ValueError \<and>
   upper [] \<noteq> ''7POINT'' \<and> upper [] \<noteq> ''8POINT'' \<and>
   find_fundamental svd_stub pts7 pts7 None [] = Inl ValueError \<and>
   upper ''8point'' = upper ''8POINT'' \<and>
   find_fundamental svd_stub pts7 pts7 None ''8point'' =
     find_fundamental svd_stub pts7 pts7 None ''8POINT''"
proof -
  have u7: "upper ''7point'' = ''7POINT''" by code_simp
  have u8: "upper ''8Point'' = ''8POINT''" by code_simp
  have ur: "upper ''ransac'' \<noteq> ''7POINT'' \<and> upper ''ransac'' \<noteq> ''8POINT''" by code_simp
  have ue: "upper [] \<noteq> ''7POINT'' \<and> upper [] \<noteq> ''8POINT''" by code_simp
  have uu: "upper ''8point'' = upper ''8POINT''" by code_simp
  note t = find_fundamental_dispatch [of _ svd_stub pts7 pts7 None]
  have r7: "find_fundamental svd_stub pts7 pts7 None ''7point'' = run_7point svd_stub pts7 pts7"
    using t [of "''7point''", THEN conjunct1] u7 by (rule mp)
  have r8: "find_fundamental svd_stub pts7 pts7 None ''8Point'' =
      run_8point svd_stub pts7 pts7 None"
    using t [of "''8Point''", THEN conjunct2, THEN conjunct1] u8 by (rule mp)
  have rr: "find_fundamental svd_stub pts7 pts7 None ''ransac'' = Inl ValueError"
    using t [of "''ransac''", THEN conjunct2, THEN conjunct2, THEN conjunct1] ur by (rule mp)
  have re: "find_fundamental svd_stub pts7 pts7 None [] = Inl ValueError"
    using t [of "[]", THEN conjunct2, THEN conjunct2, THEN conjunct1] ue by (rule mp)
  have ru: "find_fundamental svd_stub pts7 pts7 None ''8point'' =
      find_fundamental svd_stub pts7 pts7 None ''8POINT''"
    using t [of "''8point''" "''8POINT''", THEN conjunct2, THEN conjunct2, THEN conjunct2] uu
    by (rule mp)
  from u7 r7 u8 r8 ur rr ue re uu ru show ?thesis by blast
qed

end
